theory Spec2Isabelle
  imports Complex_Main "HOL-Library.Multiset"
begin

section \<open>JavaScript values used by the console\<close>

text \<open>
  Numbers of the source are IEEE doubles. Every number the modelled code computes with
  (page numbers, page sizes, counts, MiB figures, CPU percentages) is modelled as an
  unbounded \<open>int\<close>; the arithmetic of the source is exact on integers below \<open>2^53\<close>.
  Strings are byte strings; \<open>toLowerCase\<close> and \<open>trim\<close> are modelled on ASCII.
\<close>

text \<open>A property that may be missing (\<open>undefined\<close>), \<open>null\<close>, or hold a value.\<close>

datatype 'a js_field = Undefined | Null | Val 'a

text \<open>
  \<open>Array.prototype.slice(start, end)\<close>: a negative index counts from the end, every
  index is clamped to \<open>0 .. length\<close>, and an empty array results when the clamped end does
  not exceed the clamped start.
\<close>

definition js_slice :: "'a list \<Rightarrow> int \<Rightarrow> int \<Rightarrow> 'a list" where
  "js_slice xs start fin =
     (let len = int (length xs);
          k = (if start < 0 then max (len + start) 0 else min start len);
          final = (if fin < 0 then max (len + fin) 0 else min fin len)
      in take (nat (final - k)) (drop (nat k) xs))"

text \<open>
  \<open>Math.ceil(a / b)\<close> on integers. For \<open>b = 0\<close> the source yields \<open>Infinity\<close> or
  \<open>NaN\<close>, which this model does not have: the properties below assume \<open>1 \<le> b\<close>
  (the page size is the constant 10 in every state the page creates).
\<close>

definition js_ceil_div :: "int \<Rightarrow> int \<Rightarrow> int" where
  "js_ceil_div a b = \<lceil>(of_int a :: real) / of_int b\<rceil>"

text \<open>\<open>Number.prototype.toString()\<close> on a natural number, and on an integer.\<close>

fun show_nat :: "nat \<Rightarrow> string" where
  "show_nat n =
     (if n < 10 then [''0123456789'' ! n]
      else show_nat (n div 10) @ [''0123456789'' ! (n mod 10)])"

definition show_int :: "int \<Rightarrow> string" where
  "show_int i = (if i < 0 then ''-'' @ show_nat (nat (- i)) else show_nat (nat i))"

text \<open>\<open>x || dflt\<close> on an optional string: a missing or empty string is falsy.\<close>

definition str_or :: "string option \<Rightarrow> string \<Rightarrow> string" where
  "str_or x dflt = (case x of None \<Rightarrow> dflt | Some s \<Rightarrow> if s = [] then dflt else s)"

text \<open>\<open>x || 0\<close> on an optional number: a missing number and 0 are falsy.\<close>

definition num_or_0 :: "int option \<Rightarrow> int" where
  "num_or_0 x = (case x of None \<Rightarrow> 0 | Some d \<Rightarrow> if d = 0 then 0 else d)"

section \<open>Data model of the nodes page (\<open>Nodes.tsx\<close>)\<close>

record system_state =
  ss_version :: string
  ss_kernel :: string
  ss_osVersion :: string
  ss_hostname :: string
  ss_cpuCores :: int
  ss_memoryTotal :: int
  ss_containersTotal :: int
  ss_containersRunning :: int
  ss_containersStopped :: int

record allocation =
  a_id :: string
  a_nodeId :: string
  a_port :: int
  a_bindAddress :: string
  a_alias :: "string option"
  a_notes :: "string option"
  a_assigned :: bool
  a_createdAt :: nat
  a_updatedAt :: nat

record resources =
  memoryAllocated :: int
  diskAllocated :: int
  cpuAllocated :: int

record node =
  n_id :: string
  n_name :: string
  n_fqdn :: string
  n_port :: int
  n_isOnline :: bool
  n_lastChecked :: nat
  n_createdAt :: nat
  n_updatedAt :: nat
  n_systemState :: "system_state js_field"
  n_connectionKey :: "string option"
  n_allocations :: "allocation list option"
  n_resources :: "resources option"

record server =
  s_id :: string
  s_name :: string
  s_internalId :: string
  s_state :: string
  s_cpuPercent :: int
  s_memoryMiB :: int
  s_diskMiB :: "int option"
  s_userId :: string
  s_statusState :: string
  s_node :: node

record pagination =
  p_page :: int
  p_limit :: int
  p_total :: int

section \<open>Paging controls (\<open>renderPagination\<close>)\<close>

record pagination_view =
  totalPages :: int
  showingFrom :: int
  showingTo :: int
  prevTarget :: int
  prevDisabled :: bool
  pageButtons :: "int list"
  nextTarget :: int
  nextDisabled :: bool

text \<open>The number on the \<open>i\<close>-th page button (\<open>i\<close> counts from 0).\<close>

definition pageNum :: "int \<Rightarrow> int \<Rightarrow> int \<Rightarrow> int" where
  "pageNum tp currentPage i =
     (if tp \<le> 5 then i + 1
      else if currentPage \<le> 3 then i + 1
      else if currentPage \<ge> tp - 2 then tp - 4 + i
      else currentPage - 2 + i)"

definition renderPagination :: "pagination \<Rightarrow> pagination_view" where
  "renderPagination pg =
     (let tp = max 1 (js_ceil_div (p_total pg) (p_limit pg));
          currentPage = p_page pg
      in \<lparr> totalPages = tp,
           showingFrom = min ((currentPage - 1) * p_limit pg + 1) (p_total pg),
           showingTo = min (currentPage * p_limit pg) (p_total pg),
           prevTarget = max 1 (currentPage - 1),
           prevDisabled = (currentPage = 1),
           pageButtons = map (pageNum tp currentPage) [0 .. min 5 tp - 1],
           nextTarget = min tp (currentPage + 1),
           nextDisabled = (currentPage = tp) \<rparr>)"

section \<open>The allocations tab (\<open>renderAllocationTab\<close>)\<close>

text \<open>\<open>selectedNode.allocations || []\<close>\<close>

definition allocationsOf :: "node \<Rightarrow> allocation list" where
  "allocationsOf n = (case n_allocations n of None \<Rightarrow> [] | Some xs \<Rightarrow> xs)"

definition assignedAllocations :: "allocation list \<Rightarrow> allocation list" where
  "assignedAllocations allocations = filter (\<lambda>a. a_assigned a) allocations"

definition unassignedAllocations :: "allocation list \<Rightarrow> allocation list" where
  "unassignedAllocations allocations = filter (\<lambda>a. \<not> a_assigned a) allocations"

definition startIdx :: "pagination \<Rightarrow> int" where
  "startIdx pg = (p_page pg - 1) * p_limit pg"

definition endIdx :: "pagination \<Rightarrow> int" where
  "endIdx pg = p_page pg * p_limit pg"

definition paginatedAssigned :: "allocation list \<Rightarrow> pagination \<Rightarrow> allocation list" where
  "paginatedAssigned allocations pg =
     js_slice (assignedAllocations allocations)
       ((p_page pg - 1) * p_limit pg) (p_page pg * p_limit pg)"

definition paginatedUnassigned :: "allocation list \<Rightarrow> pagination \<Rightarrow> allocation list" where
  "paginatedUnassigned allocations pg =
     js_slice (unassignedAllocations allocations)
       (max 0 ((p_page pg - 1) * p_limit pg - int (length (assignedAllocations allocations))))
       (max 0 (p_page pg * p_limit pg - int (length (assignedAllocations allocations))))"

definition showAssigned :: "allocation list \<Rightarrow> pagination \<Rightarrow> bool" where
  "showAssigned allocations pg \<longleftrightarrow> startIdx pg < int (length (assignedAllocations allocations))"

definition showUnassigned :: "allocation list \<Rightarrow> pagination \<Rightarrow> bool" where
  "showUnassigned allocations pg \<longleftrightarrow> endIdx pg > int (length (assignedAllocations allocations))"

text \<open>
  What the tab puts on the screen: the two counters of the header, the ``In Use'' group and
  the ``Available'' group (each \<open>None\<close> when the group is not rendered, otherwise the rows
  it lists), the ``No allocations found'' notice and the paging controls.
\<close>

record allocation_tab =
  headerTotal :: nat
  headerInUse :: nat
  inUseGroup :: "allocation list option"
  availableGroup :: "allocation list option"
  noAllocationsNotice :: bool
  pager :: "pagination_view option"

definition renderAllocationTab :: "node option \<Rightarrow> pagination \<Rightarrow> allocation_tab option" where
  "renderAllocationTab selNode pg =
     (case selNode of
        None \<Rightarrow> None
      | Some n \<Rightarrow>
          (let allocations = allocationsOf n
           in Some \<lparr> headerTotal = length allocations,
                     headerInUse = length (assignedAllocations allocations),
                     inUseGroup =
                       (if showAssigned allocations pg \<and> length (assignedAllocations allocations) > 0
                        then Some (paginatedAssigned allocations pg) else None),
                     availableGroup =
                       (if showUnassigned allocations pg \<and> length (unassignedAllocations allocations) > 0
                        then Some (paginatedUnassigned allocations pg) else None),
                     noAllocationsNotice = (length allocations = 0),
                     pager = (if length allocations > 0 then Some (renderPagination pg) else None) \<rparr>))"

section \<open>Resources allocated on a node (\<open>fetchData\<close>, first part)\<close>

definition nodeServers :: "node \<Rightarrow> server list \<Rightarrow> server list" where
  "nodeServers nd serversData = filter (\<lambda>s. n_id (s_node s) = n_id nd) serversData"

definition nodeResources :: "node \<Rightarrow> server list \<Rightarrow> resources" where
  "nodeResources nd serversData =
     (let ns = nodeServers nd serversData
      in \<lparr> memoryAllocated = foldl (\<lambda>sum s. sum + s_memoryMiB s * 1024 * 1024) 0 ns,
           diskAllocated = foldl (\<lambda>sum s. sum + num_or_0 (s_diskMiB s) * 1024 * 1024) 0 ns,
           cpuAllocated = foldl (\<lambda>sum s. sum + s_cpuPercent s) 0 ns \<rparr>)"

definition nodesWithResources :: "node list \<Rightarrow> server list \<Rightarrow> node list" where
  "nodesWithResources nodesData serversData =
     map (\<lambda>nd. nd\<lparr> n_resources := Some (nodeResources nd serversData) \<rparr>) nodesData"

section \<open>State of the page and the server it talks to\<close>

datatype view = ListView | CreateView | ViewView | EditView

datatype tab = Overview | Servers | Configure | Allocations

datatype alert_type = AError | ASuccess | AWarning

record alert =
  al_id :: string
  al_type :: alert_type
  al_message :: string

datatype form_mode = Single | Range

record allocation_form =
  f_bindAddress :: string
  f_port :: "int option"
  f_portRange :: "(int \<times> int) option"
  f_alias :: "string option"
  f_notes :: "string option"

text \<open>The requests the page sends, in the order it sends them.\<close>

datatype request =
    GetNodes
  | GetServers
  | GetNode string
  | DeleteNode string
  | DeleteAllocation string string
  | PostAllocation string allocation_form
  | GetState string int

text \<open>
  The state hooks of \<open>AdminNodesPage\<close> that the modelled handlers read or write, and the
  log of the requests sent so far. (The node form, the clipboard flag and the sort order of
  the table are not touched by these handlers.)
\<close>

record ui_state =
  nodes :: "node list"
  servers :: "server list"
  loading :: bool
  error :: "string option"
  view :: view
  selectedNode :: "node option"
  isCreatingAllocation :: bool
  selectedAllocations :: "string list"
  activeTab :: tab
  allocationFormData :: allocation_form
  allocationFormMode :: form_mode
  allocationFormError :: "string option"
  alerts :: "alert list"
  allocationPagination :: pagination
  requests :: "request list"

text \<open>
  What \<open>fetch\<close> gives back: the promise rejects (\<open>NetFail\<close>, with the message of the
  error), or it resolves to a response that is not \<open>ok\<close> or is \<open>ok\<close>. The body is what
  \<open>response.json()\<close> resolves to, or \<open>Unreadable\<close> with the message of its rejection.
  Of the body of a failed response the page reads the fields \<open>error\<close> and \<open>count\<close>.
\<close>

datatype 'a body = Unreadable string | Json 'a

record err_data =
  e_error :: "string option"
  e_count :: "int option"

datatype 'a response = NetFail string | HttpErr "err_data body" | HttpOk "'a body"

text \<open>
  The world outside the page: the answer to each request, and the clock read by
  \<open>Date.now()\<close>, each as a function of the requests sent before.
\<close>

record env =
  nodesResp :: "request list \<Rightarrow> node list response"
  serversResp :: "request list \<Rightarrow> server list response"
  nodeResp :: "request list \<Rightarrow> string \<Rightarrow> node response"
  deleteNodeResp :: "request list \<Rightarrow> string \<Rightarrow> unit response"
  deleteAllocationResp :: "request list \<Rightarrow> string \<Rightarrow> string \<Rightarrow> unit response"
  postAllocationResp :: "request list \<Rightarrow> string \<Rightarrow> allocation_form \<Rightarrow> unit response"
  stateResp :: "request list \<Rightarrow> node \<Rightarrow> system_state response"
  now :: "request list \<Rightarrow> nat"

text \<open>
  The message of the error thrown for a response that is not \<open>ok\<close>:
  \<open>const data = await response.json(); throw new Error(data.error || dflt)\<close>.
\<close>

definition thrown :: "err_data body \<Rightarrow> string \<Rightarrow> string" where
  "thrown b dflt = (case b of Unreadable m \<Rightarrow> m | Json d \<Rightarrow> str_or (e_error d) dflt)"

text \<open>
  \<open>showAlert\<close>: appends the alert. (The timer that removes it five seconds later is not
  modelled.)
\<close>

definition showAlert :: "env \<Rightarrow> alert_type \<Rightarrow> string \<Rightarrow> ui_state \<Rightarrow> ui_state" where
  "showAlert ev ty msg s =
     s\<lparr> alerts := alerts s @
          [\<lparr> al_id = show_nat (now ev (requests s)), al_type = ty, al_message = msg \<rparr>] \<rparr>"

text \<open>
  The handlers below are closures of one render: they read the state of that render
  (the argument \<open>c\<close>) and write to the live state (the argument \<open>s\<close>), with functional
  updates (\<open>prev => ...\<close>) applied to the live state. For an event handled right after
  its render, \<open>c = s\<close>.
\<close>

section \<open>Node status probes and the refresh (\<open>fetchNodeState\<close>, \<open>fetchData\<close>)\<close>

definition fetchNodeState :: "env \<Rightarrow> request list \<Rightarrow> node \<Rightarrow> system_state js_field" where
  "fetchNodeState ev hist nd =
     (case stateResp ev hist nd of
        NetFail m \<Rightarrow> Null
      | HttpErr b \<Rightarrow> Null
      | HttpOk b \<Rightarrow> (case b of Unreadable m \<Rightarrow> Null | Json st \<Rightarrow> Val st))"

text \<open>
  \<open>Promise.all(nodesWithResources.map(async node => ...))\<close>: the probes are sent in list
  order, one for each online node; the result keeps the order of the nodes.
\<close>

fun nodesWithState :: "env \<Rightarrow> node list \<Rightarrow> request list \<Rightarrow> node list \<times> request list" where
  "nodesWithState ev [] hist = ([], hist)"
| "nodesWithState ev (nd # nds) hist =
     (if n_isOnline nd
      then (let systemState = fetchNodeState ev hist nd;
                (rest, hist') = nodesWithState ev nds (hist @ [GetState (n_fqdn nd) (n_port nd)])
            in (nd\<lparr> n_systemState := systemState \<rparr> # rest, hist'))
      else (let (rest, hist') = nodesWithState ev nds hist
            in (nd # rest, hist')))"

text \<open>
  The two list requests of \<open>fetchData\<close> and the checks on their responses, in the order
  of the source; the result is the message of the error thrown, or the two lists. (When
  both requests are rejected, the rejection of the first one is taken.)
\<close>

fun fetchLists :: "node list response \<Rightarrow> server list response \<Rightarrow> string + (node list \<times> server list)" where
  "fetchLists (NetFail m) _ = Inl m"
| "fetchLists _ (NetFail m) = Inl m"
| "fetchLists (HttpErr b) _ = Inl (thrown b ''Failed to fetch nodes'')"
| "fetchLists _ (HttpErr b) = Inl (thrown b ''Failed to fetch servers'')"
| "fetchLists (HttpOk (Unreadable m)) _ = Inl m"
| "fetchLists _ (HttpOk (Unreadable m)) = Inl m"
| "fetchLists (HttpOk (Json nodesData)) (HttpOk (Json serversData)) = Inr (nodesData, serversData)"

definition setTotal :: "allocation list \<Rightarrow> ui_state \<Rightarrow> ui_state" where
  "setTotal allocs s =
     s\<lparr> allocationPagination := (allocationPagination s)\<lparr> p_total := int (length allocs) \<rparr> \<rparr>"

definition fetchData :: "env \<Rightarrow> ui_state \<Rightarrow> ui_state \<Rightarrow> ui_state" where
  "fetchData ev c s =
     (let s1 = s\<lparr> loading := True, requests := requests s @ [GetNodes, GetServers] \<rparr>
      in case fetchLists (nodesResp ev (requests s)) (serversResp ev (requests s @ [GetNodes])) of
           Inl errorMessage \<Rightarrow>
             (showAlert ev AError errorMessage (s1\<lparr> error := Some errorMessage \<rparr>))\<lparr> loading := False \<rparr>
         | Inr (nodesData, serversData) \<Rightarrow>
             (let (nws, hist) = nodesWithState ev (nodesWithResources nodesData serversData) (requests s1);
                  s2 = s1\<lparr> requests := hist, nodes := nws, servers := serversData \<rparr>;
                  s3 = (case selectedNode c of
                          None \<Rightarrow> s2
                        | Some sel \<Rightarrow>
                            if view c = ViewView
                            then (case find (\<lambda>n. n_id n = n_id sel) nws of
                                    None \<Rightarrow> s2
                                  | Some updatedNode \<Rightarrow>
                                      (let s' = s2\<lparr> selectedNode := Some updatedNode \<rparr>
                                       in case n_allocations updatedNode of
                                            None \<Rightarrow> s'
                                          | Some allocs \<Rightarrow>
                                              if activeTab c = Allocations then setTotal allocs s' else s'))
                            else s2)
              in s3\<lparr> error := None, loading := False \<rparr>))"

section \<open>Refreshing one node (\<open>fetchSingleNode\<close>)\<close>

definition fetchSingleNode :: "env \<Rightarrow> ui_state \<Rightarrow> string \<Rightarrow> ui_state \<Rightarrow> node option \<times> ui_state" where
  "fetchSingleNode ev c nodeId s =
     (let s1 = s\<lparr> loading := True, requests := requests s @ [GetNode nodeId] \<rparr>;
          failed = (\<lambda>errorMessage. (None, (showAlert ev AError errorMessage s1)\<lparr> loading := False \<rparr>))
      in case nodeResp ev (requests s) nodeId of
           NetFail m \<Rightarrow> failed m
         | HttpErr b \<Rightarrow> failed (thrown b ''Failed to fetch node'')
         | HttpOk b \<Rightarrow>
             (case b of
                Unreadable m \<Rightarrow> failed m
              | Json nodeData \<Rightarrow>
                  (let s2 = s1\<lparr> nodes := map (\<lambda>nd. if n_id nd = nodeId then nodeData else nd) (nodes s1) \<rparr>;
                       s3 = (case selectedNode c of
                               None \<Rightarrow> s2
                             | Some sel \<Rightarrow>
                                 if n_id sel = nodeId
                                 then (let s' = s2\<lparr> selectedNode := Some nodeData \<rparr>
                                       in case n_allocations nodeData of
                                            None \<Rightarrow> s'
                                          | Some allocs \<Rightarrow>
                                              if activeTab c = Allocations then setTotal allocs s' else s')
                                 else s2)
                   in (Some nodeData, s3\<lparr> error := None, loading := False \<rparr>))))"

section \<open>Deleting a node (\<open>handleDelete\<close>)\<close>

definition handleDelete :: "env \<Rightarrow> ui_state \<Rightarrow> string \<Rightarrow> ui_state \<Rightarrow> ui_state" where
  "handleDelete ev c nodeId s =
     (let s1 = s\<lparr> requests := requests s @ [DeleteNode nodeId] \<rparr>
      in case deleteNodeResp ev (requests s) nodeId of
           NetFail m \<Rightarrow> showAlert ev AError m s1
         | HttpErr b \<Rightarrow>
             (case b of
                Unreadable m \<Rightarrow> showAlert ev AError m s1
              | Json d \<Rightarrow>
                  (case e_count d of
                     None \<Rightarrow> showAlert ev AError (str_or (e_error d) ''Failed to delete node'') s1
                   | Some cnt \<Rightarrow>
                       if cnt \<noteq> 0 \<and> cnt > 0
                       then showAlert ev AWarning
                              (''Cannot delete node with '' @ show_int cnt @ '' active servers'') s1
                       else showAlert ev AError (str_or (e_error d) ''Failed to delete node'') s1))
         | HttpOk b \<Rightarrow>
             (let s2 = fetchData ev c s1;
                  s3 = (case selectedNode c of
                          None \<Rightarrow> s2
                        | Some sel \<Rightarrow>
                            if n_id sel = nodeId
                            then s2\<lparr> view := ListView, selectedNode := None \<rparr>
                            else s2)
              in showAlert ev ASuccess ''Node deleted successfully'' s3))"

section \<open>Deleting and creating allocations\<close>

definition handleDeleteAllocation :: "env \<Rightarrow> ui_state \<Rightarrow> string \<Rightarrow> ui_state \<Rightarrow> ui_state" where
  "handleDeleteAllocation ev c allocationId s =
     (case selectedNode c of
        None \<Rightarrow> s
      | Some sel \<Rightarrow>
          (let s1 = s\<lparr> requests := requests s @ [DeleteAllocation (n_id sel) allocationId] \<rparr>
           in case deleteAllocationResp ev (requests s) (n_id sel) allocationId of
                NetFail m \<Rightarrow> showAlert ev AError m s1
              | HttpErr b \<Rightarrow> showAlert ev AError (thrown b ''Failed to delete allocation'') s1
              | HttpOk b \<Rightarrow>
                  (let (updated, s2) = fetchSingleNode ev c (n_id sel) s1;
                       s3 = (case updated of
                               None \<Rightarrow> s2
                             | Some updatedNode \<Rightarrow>
                                 (let s' = s2\<lparr> selectedNode := Some updatedNode \<rparr>
                                  in case n_allocations updatedNode of
                                       None \<Rightarrow> s'
                                     | Some allocs \<Rightarrow>
                                         (let tp = js_ceil_div (int (length allocs))
                                                     (p_limit (allocationPagination c))
                                          in if p_page (allocationPagination c) > tp \<and> tp > 0
                                             then s'\<lparr> allocationPagination :=
                                                      (allocationPagination s')
                                                        \<lparr> p_page := tp, p_total := int (length allocs) \<rparr> \<rparr>
                                             else setTotal allocs s')));
                       s4 = showAlert ev ASuccess ''Allocation deleted successfully'' s3
                   in s4\<lparr> selectedAllocations := [] \<rparr>)))"

text \<open>
  \<open>handleCreateAllocation\<close> and \<open>handleDeleteSelected\<close> are created by
  \<open>renderAllocationTab\<close>, which returns before creating them when no node is selected.
\<close>

definition handleCreateAllocation :: "env \<Rightarrow> ui_state \<Rightarrow> ui_state \<Rightarrow> ui_state" where
  "handleCreateAllocation ev c s =
     (case selectedNode c of
        None \<Rightarrow> s
      | Some sel \<Rightarrow>
          (let s0 = s\<lparr> isCreatingAllocation := True, allocationFormError := None \<rparr>;
               s1 = s0\<lparr> requests := requests s0 @ [PostAllocation (n_id sel) (allocationFormData c)] \<rparr>;
               failed = (\<lambda>errorMessage.
                  (showAlert ev AError errorMessage (s1\<lparr> allocationFormError := Some errorMessage \<rparr>))
                    \<lparr> isCreatingAllocation := False \<rparr>)
           in case postAllocationResp ev (requests s) (n_id sel) (allocationFormData c) of
                NetFail m \<Rightarrow> failed m
              | HttpErr b \<Rightarrow> failed (thrown b ''Failed to create allocation'')
              | HttpOk b \<Rightarrow>
                  (let (updated, s2) = fetchSingleNode ev c (n_id sel) s1;
                       s3 = (case updated of
                               None \<Rightarrow> s2
                             | Some updatedNode \<Rightarrow>
                                 (let s' = s2\<lparr> selectedNode := Some updatedNode \<rparr>
                                  in case n_allocations updatedNode of
                                       None \<Rightarrow> s'
                                     | Some allocs \<Rightarrow> setTotal allocs s'));
                       s4 = s3\<lparr> allocationFormData :=
                                   \<lparr> f_bindAddress = ''0.0.0.0'', f_port = None, f_portRange = None,
                                     f_alias = None, f_notes = None \<rparr>,
                                 allocationFormMode := Single \<rparr>;
                       s5 = showAlert ev ASuccess ''Allocation created successfully'' s4
                   in s5\<lparr> isCreatingAllocation := False \<rparr>)))"

text \<open>
  \<open>for (const id of selectedAllocations) { try { await handleDeleteAllocation(id) } catch ... }\<close>
  followed by \<open>setSelectedAllocations([])\<close>. The loop runs over the selection of the
  render; \<open>handleDeleteAllocation\<close> handles its own errors and never throws.
\<close>

definition handleDeleteSelected :: "env \<Rightarrow> ui_state \<Rightarrow> ui_state \<Rightarrow> ui_state" where
  "handleDeleteSelected ev c s =
     (foldl (\<lambda>st allocationId. handleDeleteAllocation ev c allocationId st) s (selectedAllocations c))
       \<lparr> selectedAllocations := [] \<rparr>"

section \<open>Effects and navigation of the nodes page\<close>

text \<open>
  The effect of \<open>AdminNodesPage\<close> that runs after a render in which \<open>selectedNode\<close> or
  \<open>activeTab\<close> has changed.
\<close>

definition totalEffect :: "ui_state \<Rightarrow> ui_state" where
  "totalEffect s =
     (case selectedNode s of
        None \<Rightarrow> s
      | Some sel \<Rightarrow>
          (case n_allocations sel of
             None \<Rightarrow> s
           | Some allocs \<Rightarrow> if activeTab s = Allocations then setTotal allocs s else s))"

text \<open>
  \<open>handlePageChange\<close> of the allocations tab, the click on a row of the node table, and
  the back button of the node view.
\<close>

definition handlePageChange :: "int \<Rightarrow> ui_state \<Rightarrow> ui_state" where
  "handlePageChange page s = s\<lparr> allocationPagination := (allocationPagination s)\<lparr> p_page := page \<rparr> \<rparr>"

definition openNode :: "node \<Rightarrow> ui_state \<Rightarrow> ui_state" where
  "openNode nd s = s\<lparr> selectedNode := Some nd, view := ViewView \<rparr>"

definition backToList :: "ui_state \<Rightarrow> ui_state" where
  "backToList s = s\<lparr> view := ListView, selectedNode := None \<rparr>"

text \<open>The deletions of allocations among the requests of a log.\<close>

fun isDeleteAllocation :: "request \<Rightarrow> bool" where
  "isDeleteAllocation (DeleteAllocation nodeId allocationId) = True"
| "isDeleteAllocation _ = False"

section \<open>The server search widget (\<open>SearchBar.tsx\<close>)\<close>

record search_node =
  sn_fqdn :: string
  sn_port :: int

record search_server =
  sv_id :: string
  sv_name :: string
  sv_node :: "search_node option"
  sv_state :: "string option"

record search_state =
  sb_isOpen :: bool
  sb_query :: string
  sb_servers :: "search_server list"
  sb_filteredServers :: "search_server list"
  sb_loading :: bool
  sb_selectedIndex :: int

text \<open>\<open>String.prototype.trim\<close>, \<open>toLowerCase\<close> and \<open>includes\<close> on ASCII strings.\<close>

definition is_space :: "char \<Rightarrow> bool" where
  "is_space ch \<longleftrightarrow> ch \<in> set [CHR '' '', CHR 0x09, CHR 0x0A, CHR 0x0B, CHR 0x0C, CHR 0x0D]"

definition js_trim :: "string \<Rightarrow> string" where
  "js_trim s = rev (dropWhile is_space (rev (dropWhile is_space s)))"

definition lower_char :: "char \<Rightarrow> char" where
  "lower_char ch =
     (case map_of (zip ''ABCDEFGHIJKLMNOPQRSTUVWXYZ'' ''abcdefghijklmnopqrstuvwxyz'') ch of
        None \<Rightarrow> ch | Some l \<Rightarrow> l)"

definition toLowerCase :: "string \<Rightarrow> string" where
  "toLowerCase s = map lower_char s"

fun startsWith :: "string \<Rightarrow> string \<Rightarrow> bool" where
  "startsWith s [] = True"
| "startsWith [] (q # qs) = False"
| "startsWith (ch # s) (q # qs) = (ch = q \<and> startsWith s qs)"

fun js_includes :: "string \<Rightarrow> string \<Rightarrow> bool" where
  "js_includes [] q = (q = [])"
| "js_includes (ch # s) q = (startsWith (ch # s) q \<or> js_includes s q)"

text \<open>The effect that runs when \<open>query\<close> or \<open>servers\<close> has changed.\<close>

definition filterEffect :: "search_state \<Rightarrow> search_state" where
  "filterEffect st =
     (if js_trim (sb_query st) = [] then st\<lparr> sb_filteredServers := sb_servers st \<rparr>
      else (let lowerQuery = toLowerCase (sb_query st);
                filtered = filter (\<lambda>server.
                    js_includes (toLowerCase (sv_name server)) lowerQuery
                    \<or> (case sv_node server of
                          None \<Rightarrow> False
                        | Some nd \<Rightarrow> js_includes (toLowerCase (sn_fqdn nd)) lowerQuery))
                  (sb_servers st)
            in st\<lparr> sb_filteredServers := filtered, sb_selectedIndex := 0 \<rparr>))"

text \<open>\<open>setQuery(q)\<close> with a new value, then the effect.\<close>

definition setQuery :: "string \<Rightarrow> search_state \<Rightarrow> search_state" where
  "setQuery q st = filterEffect (st\<lparr> sb_query := q \<rparr>)"

text \<open>The \<open>ArrowDown\<close> and \<open>ArrowUp\<close> branches of \<open>handleSearchKeyDown\<close>.\<close>

definition arrowDown :: "search_state \<Rightarrow> search_state" where
  "arrowDown st =
     st\<lparr> sb_selectedIndex :=
          min (sb_selectedIndex st + 1) (int (length (sb_filteredServers st)) - 1) \<rparr>"

definition arrowUp :: "search_state \<Rightarrow> search_state" where
  "arrowUp st = st\<lparr> sb_selectedIndex := max (sb_selectedIndex st - 1) 0 \<rparr>"

section \<open>The pager as the specification words it\<close>

text \<open>
  \<open>xs[a : b]\<close> clamped to the bounds of \<open>xs\<close>: the elements of \<open>xs\<close> at the positions
  \<open>i\<close> with \<open>a \<le> i < b\<close> that exist, in order.
\<close>

definition spec_slice :: "'a list \<Rightarrow> int \<Rightarrow> int \<Rightarrow> 'a list" where
  "spec_slice xs a b = map ((!) xs) [i \<leftarrow> [0..<length xs]. a \<le> int i \<and> int i < b]"

section \<open>Example data\<close>

definition mkAllocation :: "string \<Rightarrow> int \<Rightarrow> bool \<Rightarrow> allocation" where
  "mkAllocation i p asg =
     \<lparr> a_id = i, a_nodeId = ''n1'', a_port = p, a_bindAddress = ''0.0.0.0'',
       a_alias = None, a_notes = None, a_assigned = asg, a_createdAt = 0, a_updatedAt = 0 \<rparr>"

definition mkNode :: "string \<Rightarrow> bool \<Rightarrow> allocation list option \<Rightarrow> node" where
  "mkNode i online allocs =
     \<lparr> n_id = i, n_name = i, n_fqdn = i @ ''.example.com'', n_port = 8080,
       n_isOnline = online, n_lastChecked = 0, n_createdAt = 0, n_updatedAt = 0,
       n_systemState = Undefined, n_connectionKey = None, n_allocations = allocs,
       n_resources = None \<rparr>"

text \<open>A pool of 15 allocations in creation order, 3 of them in use.\<close>

definition example_pool :: "allocation list" where
  "example_pool =
     [ mkAllocation ''u1'' 25565 False, mkAllocation ''a1'' 25566 True,
       mkAllocation ''u2'' 25567 False, mkAllocation ''u3'' 25568 False,
       mkAllocation ''a2'' 25569 True, mkAllocation ''u4'' 25570 False,
       mkAllocation ''u5'' 25571 False, mkAllocation ''u6'' 25572 False,
       mkAllocation ''a3'' 25573 True, mkAllocation ''u7'' 25574 False,
       mkAllocation ''u8'' 25575 False, mkAllocation ''u9'' 25576 False,
       mkAllocation ''u10'' 25577 False, mkAllocation ''u11'' 25578 False,
       mkAllocation ''u12'' 25579 False ]"

text \<open>The state of the page when it is mounted, and a world in which every request is rejected.\<close>

definition initial_state :: ui_state where
  "initial_state =
     \<lparr> nodes = [], servers = [], loading = True, error = None, view = ListView,
       selectedNode = None, isCreatingAllocation = False, selectedAllocations = [],
       activeTab = Overview,
       allocationFormData = \<lparr> f_bindAddress = ''0.0.0.0'', f_port = None, f_portRange = None,
                              f_alias = None, f_notes = None \<rparr>,
       allocationFormMode = Single, allocationFormError = None, alerts = [],
       allocationPagination = \<lparr> p_page = 1, p_limit = 10, p_total = 0 \<rparr>,
       requests = [] \<rparr>"

definition offline_env :: env where
  "offline_env =
     \<lparr> nodesResp = (\<lambda>hist. NetFail ''Failed to fetch''),
       serversResp = (\<lambda>hist. NetFail ''Failed to fetch''),
       nodeResp = (\<lambda>hist nodeId. NetFail ''Failed to fetch''),
       deleteNodeResp = (\<lambda>hist nodeId. NetFail ''Failed to fetch''),
       deleteAllocationResp = (\<lambda>hist nodeId allocationId. NetFail ''Failed to fetch''),
       postAllocationResp = (\<lambda>hist nodeId form. NetFail ''Failed to fetch''),
       stateResp = (\<lambda>hist nd. NetFail ''Failed to fetch''),
       now = (\<lambda>hist. 1000 + length hist) \<rparr>"

text \<open>Three servers known to the search widget; the second has no node record.\<close>

definition example_servers :: "search_server list" where
  "example_servers =
     [ \<lparr> sv_id = ''s1'', sv_name = ''Web-01'',
         sv_node = Some \<lparr> sn_fqdn = ''eu1.example.com'', sn_port = 8080 \<rparr>, sv_state = Some ''running'' \<rparr>,
       \<lparr> sv_id = ''s2'', sv_name = ''db-01'', sv_node = None, sv_state = None \<rparr>,
       \<lparr> sv_id = ''s3'', sv_name = ''cache'',
         sv_node = Some \<lparr> sn_fqdn = ''WEB.example.com'', sn_port = 8080 \<rparr>, sv_state = Some ''stopped'' \<rparr> ]"

definition search_initial :: search_state where
  "search_initial =
     \<lparr> sb_isOpen = True, sb_query = [], sb_servers = example_servers,
       sb_filteredServers = example_servers, sb_loading = False, sb_selectedIndex = 0 \<rparr>"

text \<open>A world with three nodes: the probe of the first is rejected, the second is offline,
  the third answers.\<close>

definition example_system_state :: system_state where
  "example_system_state =
     \<lparr> ss_version = ''1.0.0'', ss_kernel = ''6.1'', ss_osVersion = ''12'', ss_hostname = ''n3'',
       ss_cpuCores = 8, ss_memoryTotal = 17179869184, ss_containersTotal = 2,
       ss_containersRunning = 1, ss_containersStopped = 1 \<rparr>"

definition probing_env :: env where
  "probing_env =
     offline_env
       \<lparr> nodesResp := (\<lambda>hist. HttpOk (Json [mkNode ''n1'' True None, mkNode ''n2'' False None,
                                               mkNode ''n3'' True None])),
         serversResp := (\<lambda>hist. HttpOk (Json [])),
         stateResp := (\<lambda>hist nd. if n_id nd = ''n3'' then HttpOk (Json example_system_state)
                                  else if n_id nd = ''n2'' then HttpErr (Unreadable ''Unexpected token'')
                                  else NetFail ''Failed to fetch'') \<rparr>"

text \<open>
  The page showing the allocations tab of node \<open>n1\<close> with a given pool and pagination,
  and a world in which every change of allocations succeeds and the node is then reported
  as given.
\<close>

definition viewing_state :: "allocation list \<Rightarrow> pagination \<Rightarrow> ui_state" where
  "viewing_state pool pg =
     initial_state
       \<lparr> nodes := [mkNode ''n1'' True (Some pool)], loading := False, view := ViewView,
         selectedNode := Some (mkNode ''n1'' True (Some pool)), activeTab := Allocations,
         allocationPagination := pg \<rparr>"

definition serving_env :: "node \<Rightarrow> env" where
  "serving_env refreshed =
     offline_env
       \<lparr> nodeResp := (\<lambda>hist nodeId. HttpOk (Json refreshed)),
         deleteAllocationResp := (\<lambda>hist nodeId allocationId. HttpOk (Json ())),
         postAllocationResp := (\<lambda>hist nodeId form. HttpOk (Json ())) \<rparr>"

text \<open>A world that refuses to delete the allocation \<open>u1\<close> and accepts every other change.\<close>

definition flaky_env :: "node \<Rightarrow> env" where
  "flaky_env refreshed =
     (serving_env refreshed)
       \<lparr> deleteAllocationResp := (\<lambda>hist nodeId allocationId.
            if allocationId = ''u1''
            then HttpErr (Json \<lparr> e_error = Some ''Allocation is in use'', e_count = None \<rparr>)
            else HttpOk (Json ())) \<rparr>"



text \<open>
  Page 1 of the pool of 15 allocations, and a world in which the node is reported without
  an allocation list after the change.
\<close>

definition page1_state :: ui_state where
  "page1_state = viewing_state example_pool \<lparr>p_page = 1, p_limit = 10, p_total = 15\<rparr>"

definition bare_env :: env where
  "bare_env = serving_env (mkNode ''n1'' True None)"

text \<open>The search widget after the query ``web'' has been typed and the down arrow pressed.\<close>

definition searched_state :: search_state where
  "searched_state = arrowDown (setQuery ''web'' search_initial)"

section \<open>Properties of the JavaScript helpers\<close>

declare show_nat.simps [simp del]

lemma js_ceil_div_int: "js_ceil_div a b = - ((- a) div b)"
  unfolding js_ceil_div_def by (rule ceiling_divide_eq_div)

lemma filter_window:
  assumes "0 \<le> a"
  shows "[i \<leftarrow> [0..<n]. a \<le> int i \<and> int i < b] = [nat a ..< min (nat b) n]"
proof (induction n)
  case 0
  show ?case by simp
next
  case (Suc n)
  show ?case
  proof (cases "a \<le> int n \<and> int n < b")
    case True
    then have "min (nat b) (Suc n) = Suc n" "min (nat b) n = n" "nat a \<le> n"
      using assms by auto
    with Suc True show ?thesis by simp
  next
    case False
    then have "[nat a ..< min (nat b) (Suc n)] = [nat a ..< min (nat b) n]"
      using assms by (auto simp: min_def)
    with Suc False show ?thesis by simp
  qed
qed

lemma map_nth_window:
  "j \<le> length xs \<Longrightarrow> map ((!) xs) [i..<j] = take (j - i) (drop i xs)"
  by (rule nth_equalityI) auto

lemma spec_slice_take_drop:
  assumes "0 \<le> a"
  shows "spec_slice xs a b = take (min (nat b) (length xs) - nat a) (drop (nat a) xs)"
  unfolding spec_slice_def using assms by (simp add: filter_window map_nth_window)

lemma js_slice_spec:
  assumes "0 \<le> a" "0 \<le> b"
  shows "js_slice xs a b = spec_slice xs a b"
proof (cases "a \<le> int (length xs)")
  case True
  have "nat (min b (int (length xs)) - a) = min (nat b) (length xs) - nat a"
    using assms True by (auto simp: min_def nat_diff_distrib')
  then show ?thesis
    unfolding spec_slice_take_drop [OF assms(1)] js_slice_def Let_def
    using assms True by (simp add: min_absorb1)
next
  case False
  then have "length xs \<le> nat a" by linarith
  then show ?thesis
    unfolding spec_slice_take_drop [OF assms(1)] js_slice_def Let_def
    using assms False by simp
qed

lemma spec_slice_clamp:
  "spec_slice xs (max 0 a) (min (int (length xs)) b) = spec_slice xs a b"
  unfolding spec_slice_def
  by (rule arg_cong [where f = "map ((!) xs)"], rule filter_cong) auto

lemma js_slice_window:
  assumes "0 \<le> a" "a \<le> b"
  shows "js_slice xs a b = take (nat (b - a)) (drop (nat a) xs)"
proof (cases "a \<le> int (length xs)")
  case True
  then show ?thesis
    using assms unfolding js_slice_def Let_def
    by (cases "b \<le> int (length xs)") (auto simp: min_def)
next
  case False
  then show ?thesis using assms unfolding js_slice_def Let_def by auto
qed

lemma take_drop_append:
  "take l (drop k (xs @ ys)) =
     take l (drop k xs) @ take (l - (length xs - k)) (drop (k - length xs) ys)"
  by simp

lemma page_window:
  assumes "1 \<le> P" "1 \<le> L"
  shows "paginatedAssigned allocations \<lparr>p_page = P, p_limit = L, p_total = T\<rparr>
           @ paginatedUnassigned allocations \<lparr>p_page = P, p_limit = L, p_total = T\<rparr>
         = take (nat L) (drop (nat (P - 1) * nat L)
             (assignedAllocations allocations @ unassignedAllocations allocations))"
proof -
  let ?as = "assignedAllocations allocations" and ?us = "unassignedAllocations allocations"
  let ?s = "(P - 1) * L" and ?f = "P * L"
  let ?la = "int (length ?as)"
  have s0: "0 \<le> ?s" using assms by simp
  have fs: "?f - ?s = L" by (simp add: algebra_simps)
  then have sf: "?s \<le> ?f" using assms by linarith
  have nats: "nat ?s = nat (P - 1) * nat L" using assms by (simp add: nat_mult_distrib)
  have a: "js_slice ?as ?s ?f = take (nat L) (drop (nat ?s) ?as)"
    using js_slice_window [OF s0 sf] fs by simp
  have le: "max 0 (?s - ?la) \<le> max 0 (?f - ?la)" using sf by linarith
  have n1: "nat (max 0 (?s - ?la)) = nat ?s - length ?as" by linarith
  have n2: "nat (max 0 (?f - ?la) - max 0 (?s - ?la)) = nat L - (length ?as - nat ?s)"
    using fs s0 assms by linarith
  have u: "js_slice ?us (max 0 (?s - ?la)) (max 0 (?f - ?la))
             = take (nat L - (length ?as - nat ?s)) (drop (nat ?s - length ?as) ?us)"
    using js_slice_window [OF _ le] n1 n2 by simp
  show ?thesis
    unfolding paginatedAssigned_def paginatedUnassigned_def pagination.simps a u nats [symmetric]
    by simp
qed

lemma concat_windows:
  "concat (map (\<lambda>k. take l (drop (k * l) xs)) [0..<m]) = take (m * l) xs"
proof (induction m)
  case 0
  show ?case by simp
next
  case (Suc m)
  have "take (m * l) xs @ take l (drop (m * l) xs) = take (m * l + l) xs"
    by (simp add: take_add)
  with Suc show ?case by (simp add: add.commute)
qed

lemma upto_from_1: "0 \<le> N \<Longrightarrow> [1..N] = map (\<lambda>k. int k + 1) [0..<nat N]"
  by (rule nth_equalityI) auto

lemma ceil_div_covers:
  assumes "1 \<le> L"
  shows "t \<le> js_ceil_div t L * L"
proof -
  have "(- t) div L * L \<le> - t"
    using assms by (smt (verit) div_mult_mod_eq pos_mod_sign)
  then show ?thesis unfolding js_ceil_div_int by (simp add: algebra_simps)
qed

lemma ceil_div_nonneg: "1 \<le> L \<Longrightarrow> 0 \<le> t \<Longrightarrow> 0 \<le> js_ceil_div t L"
  unfolding js_ceil_div_int
  by (smt (verit) div_nonneg_neg_le0 neg_imp_zdiv_neg_iff pos_imp_zdiv_neg_iff zdiv_eq_0_iff)

lemma partition_mset:
  "mset (assignedAllocations xs @ unassignedAllocations xs) = mset xs"
  unfolding assignedAllocations_def unassignedAllocations_def by simp


lemma partition_length:
  "length (assignedAllocations xs) + length (unassignedAllocations xs) = length xs"
  unfolding assignedAllocations_def unassignedAllocations_def
  by (rule sum_length_filter_compl)

lemma pages_concat:
  assumes "1 \<le> L"
  shows "concat (map (\<lambda>p. paginatedAssigned allocations \<lparr>p_page = p, p_limit = L, p_total = T\<rparr>
                         @ paginatedUnassigned allocations \<lparr>p_page = p, p_limit = L, p_total = T\<rparr>)
                  [1 .. js_ceil_div (int (length allocations)) L])
         = assignedAllocations allocations @ unassignedAllocations allocations"
proof -
  let ?xs = "assignedAllocations allocations @ unassignedAllocations allocations"
  let ?N = "js_ceil_div (int (length allocations)) L"
  have N0: "0 \<le> ?N" using assms by (simp add: ceil_div_nonneg)
  have len: "length ?xs = length allocations" by (simp add: partition_length)
  have "int (length allocations) \<le> ?N * L" using assms by (rule ceil_div_covers)
  then have "int (length allocations) \<le> int (nat ?N * nat L)"
    using N0 assms by (simp add: nat_mult_distrib [symmetric])
  then have cover: "length ?xs \<le> nat ?N * nat L" unfolding len by linarith
  have "concat (map (\<lambda>p. paginatedAssigned allocations \<lparr>p_page = p, p_limit = L, p_total = T\<rparr>
                         @ paginatedUnassigned allocations \<lparr>p_page = p, p_limit = L, p_total = T\<rparr>)
                  [1 .. ?N])
        = concat (map (\<lambda>k. take (nat L) (drop (k * nat L) ?xs)) [0..<nat ?N])"
    unfolding upto_from_1 [OF N0] map_map
    by (rule arg_cong [where f = concat], rule map_cong) (simp_all add: page_window assms)
  also have "\<dots> = take (nat ?N * nat L) ?xs" by (rule concat_windows)
  also have "\<dots> = ?xs" using cover by simp
  finally show ?thesis .
qed

section \<open>The partitioned pager\<close>

text \<open>
  Claim C1. For a page number \<open>P \<ge> 1\<close> and a page size \<open>L \<ge> 1\<close>, with
  \<open>start = (P-1)*L\<close> and \<open>end = P*L\<close>: the assigned slice of the tab is
  \<open>assigned[max(0,start) : min(assignedCount,end)]\<close>, the unassigned slice is
  \<open>unassigned[max(0,start-assignedCount) : max(0,end-assignedCount)]\<close>, both clamped to the
  bounds of their list; the ``In Use'' group is rendered exactly when \<open>start < assignedCount\<close>
  (the assigned subset is then non-empty) and lists the assigned slice; the ``Available''
  group is rendered exactly when \<open>end > assignedCount\<close> and the unassigned subset is
  non-empty, and lists the unassigned slice.
\<close>

theorem C1_page_slices:
  assumes "1 \<le> P" and "1 \<le> L"
  shows "let pg = \<lparr>p_page = P, p_limit = L, p_total = T\<rparr>;
             allocations = allocationsOf n;
             assigned = assignedAllocations allocations;
             unassigned = unassignedAllocations allocations;
             assignedCount = int (length assigned);
             start = (P - 1) * L;
             fin = P * L
         in paginatedAssigned allocations pg
              = spec_slice assigned (max 0 start) (min assignedCount fin)
          \<and> paginatedUnassigned allocations pg
              = spec_slice unassigned (max 0 (start - assignedCount)) (max 0 (fin - assignedCount))
          \<and> (\<exists>tab. renderAllocationTab (Some n) pg = Some tab
                \<and> (inUseGroup tab \<noteq> None \<longleftrightarrow> start < assignedCount)
                \<and> (inUseGroup tab \<noteq> None \<longleftrightarrow> start < assignedCount \<and> assigned \<noteq> [])
                \<and> (inUseGroup tab \<noteq> None \<longrightarrow> inUseGroup tab = Some (paginatedAssigned allocations pg))
                \<and> (availableGroup tab \<noteq> None \<longleftrightarrow> fin > assignedCount \<and> unassigned \<noteq> [])
                \<and> (availableGroup tab \<noteq> None \<longrightarrow>
                      availableGroup tab = Some (paginatedUnassigned allocations pg)))"
proof -
  have s0: "0 \<le> (P - 1) * L" and f0: "0 \<le> P * L"
    using assms by simp_all
  let ?as = "assignedAllocations (allocationsOf n)"
  let ?us = "unassignedAllocations (allocationsOf n)"
  let ?pg = "\<lparr>p_page = P, p_limit = L, p_total = T\<rparr>"
  have a: "paginatedAssigned (allocationsOf n) ?pg
             = spec_slice ?as (max 0 ((P - 1) * L)) (min (int (length ?as)) (P * L))"
    unfolding paginatedAssigned_def using s0 f0
    by (simp only: pagination.simps js_slice_spec spec_slice_clamp)
  have u: "paginatedUnassigned (allocationsOf n) ?pg
             = spec_slice ?us (max 0 ((P - 1) * L - int (length ?as))) (max 0 (P * L - int (length ?as)))"
    unfolding paginatedUnassigned_def by (simp add: js_slice_spec)
  have r: "\<exists>tab. renderAllocationTab (Some n) ?pg = Some tab
                \<and> (inUseGroup tab \<noteq> None \<longleftrightarrow> (P - 1) * L < int (length ?as))
                \<and> (inUseGroup tab \<noteq> None \<longleftrightarrow> (P - 1) * L < int (length ?as) \<and> ?as \<noteq> [])
                \<and> (inUseGroup tab \<noteq> None \<longrightarrow> inUseGroup tab = Some (paginatedAssigned (allocationsOf n) ?pg))
                \<and> (availableGroup tab \<noteq> None \<longleftrightarrow> P * L > int (length ?as) \<and> ?us \<noteq> [])
                \<and> (availableGroup tab \<noteq> None \<longrightarrow>
                      availableGroup tab = Some (paginatedUnassigned (allocationsOf n) ?pg))"
    using s0 by (auto simp: renderAllocationTab_def Let_def showAssigned_def showUnassigned_def
        startIdx_def endIdx_def)
  from a u r show ?thesis unfolding Let_def by blast
qed


theorem C1_page_slices_witness:
  "(1::int) \<le> 2 \<and> (1::int) \<le> 2
   \<and> map a_id (paginatedAssigned example_pool \<lparr>p_page = 2, p_limit = 2, p_total = 15\<rparr>) = [''a3'']
   \<and> paginatedAssigned example_pool \<lparr>p_page = 2, p_limit = 2, p_total = 15\<rparr>
        = spec_slice (assignedAllocations example_pool) (max 0 2) (min 3 4)
   \<and> map a_id (paginatedUnassigned example_pool \<lparr>p_page = 2, p_limit = 2, p_total = 15\<rparr>) = [''u1'']
   \<and> paginatedUnassigned example_pool \<lparr>p_page = 2, p_limit = 2, p_total = 15\<rparr>
        = spec_slice (unassignedAllocations example_pool) (max 0 (2 - 3)) (max 0 (4 - 3))
   \<and> (\<exists>tab. renderAllocationTab (Some (mkNode ''n1'' True (Some example_pool)))
                \<lparr>p_page = 2, p_limit = 2, p_total = 15\<rparr> = Some tab
          \<and> inUseGroup tab \<noteq> None \<and> availableGroup tab \<noteq> None)"
proof -
  have h: "(1::int) \<le> 2" by simp
  have pool: "allocationsOf (mkNode ''n1'' True (Some example_pool)) = example_pool"
    by (simp add: allocationsOf_def mkNode_def)
  have len: "int (length (assignedAllocations example_pool)) = 3"
    "unassignedAllocations example_pool \<noteq> []"
    by (simp_all add: assignedAllocations_def unassignedAllocations_def example_pool_def
        mkAllocation_def)
  have ids: "map a_id (paginatedAssigned example_pool \<lparr>p_page = 2, p_limit = 2, p_total = 15\<rparr>) = [''a3'']"
    "map a_id (paginatedUnassigned example_pool \<lparr>p_page = 2, p_limit = 2, p_total = 15\<rparr>) = [''u1'']"
    by (simp_all add: paginatedAssigned_def paginatedUnassigned_def js_slice_def
        assignedAllocations_def unassignedAllocations_def example_pool_def mkAllocation_def)
  from C1_page_slices [OF h h, where n = "mkNode ''n1'' True (Some example_pool)" and T = 15]
  show ?thesis
    unfolding Let_def pool len(1) using len(2) ids by auto
qed

text \<open>
  Claim C2. For a page size \<open>L \<ge> 1\<close>, the assigned slice followed by the unassigned
  slice of the pages \<open>1 .. ceil(total/L)\<close>, concatenated in page order, is the whole
  assigned subset followed by the whole unassigned subset, each in its original order, and
  holds every allocation of the pool exactly once. With 3 assigned and 12 unassigned
  allocations and \<open>L = 10\<close>, page 1 shows the 3 assigned and the first 7 unassigned
  allocations, page 2 the remaining 5 unassigned ones, the total is 15 and there are 2 pages.
\<close>

theorem C2_pages_cover_pool:
  assumes "1 \<le> L"
  shows "let total = int (length allocations);
             pg = (\<lambda>p. \<lparr>p_page = p, p_limit = L, p_total = total\<rparr>);
             assigned = assignedAllocations allocations;
             unassigned = unassignedAllocations allocations;
             shown = concat (map (\<lambda>p. paginatedAssigned allocations (pg p)
                                        @ paginatedUnassigned allocations (pg p))
                              [1 .. js_ceil_div total L])
         in shown = assigned @ unassigned
          \<and> mset shown = mset allocations
          \<and> (L = 10 \<and> length assigned = 3 \<and> length unassigned = 12 \<longrightarrow>
                paginatedAssigned allocations (pg 1) = assigned
              \<and> paginatedUnassigned allocations (pg 1) = take 7 unassigned
              \<and> paginatedAssigned allocations (pg 2) = []
              \<and> paginatedUnassigned allocations (pg 2) = drop 7 unassigned
              \<and> length (take 7 unassigned) = 7 \<and> length (drop 7 unassigned) = 5
              \<and> total = 15
              \<and> js_ceil_div total L = 2
              \<and> totalPages (renderPagination (pg 1)) = 2)"
proof -
  let ?as = "assignedAllocations allocations" and ?us = "unassignedAllocations allocations"
  let ?T = "int (length allocations)"
  let ?pg = "\<lambda>p. \<lparr>p_page = p, p_limit = L, p_total = ?T\<rparr>"
  have c: "concat (map (\<lambda>p. paginatedAssigned allocations (?pg p)
                                        @ paginatedUnassigned allocations (?pg p))
                              [1 .. js_ceil_div ?T L]) = ?as @ ?us"
    using assms by (rule pages_concat)
  have scen: "paginatedAssigned allocations (?pg 1) = ?as
              \<and> paginatedUnassigned allocations (?pg 1) = take 7 ?us
              \<and> paginatedAssigned allocations (?pg 2) = []
              \<and> paginatedUnassigned allocations (?pg 2) = drop 7 ?us
              \<and> length (take 7 ?us) = 7 \<and> length (drop 7 ?us) = 5
              \<and> ?T = 15
              \<and> js_ceil_div ?T L = 2
              \<and> totalPages (renderPagination (?pg 1)) = 2"
    if h: "L = 10" "length ?as = 3" "length ?us = 12"
  proof -
    have T: "?T = 15" using partition_length [of allocations] h by simp
    show ?thesis
      unfolding T using h
      by (simp add: paginatedAssigned_def paginatedUnassigned_def js_slice_def
          renderPagination_def js_ceil_div_int)
  qed
  show ?thesis
    unfolding Let_def c using scen partition_mset [of allocations] by blast
qed


theorem C2_pages_cover_pool_witness:
  "(1::int) \<le> 10
   \<and> length (assignedAllocations example_pool) = 3
   \<and> length (unassignedAllocations example_pool) = 12
   \<and> concat (map (\<lambda>p. paginatedAssigned example_pool \<lparr>p_page = p, p_limit = 10, p_total = 15\<rparr>
                       @ paginatedUnassigned example_pool \<lparr>p_page = p, p_limit = 10, p_total = 15\<rparr>)
                [1 .. js_ceil_div 15 10])
        = assignedAllocations example_pool @ unassignedAllocations example_pool
   \<and> paginatedAssigned example_pool \<lparr>p_page = 1, p_limit = 10, p_total = 15\<rparr>
        = assignedAllocations example_pool
   \<and> paginatedUnassigned example_pool \<lparr>p_page = 1, p_limit = 10, p_total = 15\<rparr>
        = take 7 (unassignedAllocations example_pool)
   \<and> paginatedAssigned example_pool \<lparr>p_page = 2, p_limit = 10, p_total = 15\<rparr> = []
   \<and> paginatedUnassigned example_pool \<lparr>p_page = 2, p_limit = 10, p_total = 15\<rparr>
        = drop 7 (unassignedAllocations example_pool)
   \<and> totalPages (renderPagination \<lparr>p_page = 1, p_limit = 10, p_total = 15\<rparr>) = 2"
proof -
  have h: "(1::int) \<le> 10" by simp
  have len: "length (assignedAllocations example_pool) = 3"
    "length (unassignedAllocations example_pool) = 12"
    "int (length example_pool) = 15"
    by (simp_all add: assignedAllocations_def unassignedAllocations_def example_pool_def
        mkAllocation_def)
  have c: "js_ceil_div 15 10 = 2" by (simp add: js_ceil_div_int)
  from C2_pages_cover_pool [OF h, of example_pool]
  show ?thesis
    unfolding Let_def len c by simp
qed

section \<open>The paging controls\<close>

lemma map_shift_upto:
  "map (\<lambda>i. c + i) [0 .. n] = [c .. c + n]"
  by (rule nth_equalityI) auto

lemma pageButtons_low:
  assumes "tp \<le> 5 \<or> cur \<le> 3"
  shows "map (pageNum tp cur) [0 .. min 5 tp - 1] = [1 .. min 5 tp]"
proof -
  have "map (pageNum tp cur) [0 .. min 5 tp - 1] = map (\<lambda>i. 1 + i) [0 .. min 5 tp - 1]"
    using assms by (intro map_cong) (auto simp: pageNum_def)
  also have "\<dots> = [1 .. 1 + (min 5 tp - 1)]" by (rule map_shift_upto)
  also have "1 + (min 5 tp - 1) = min 5 tp" by simp
  finally show ?thesis .
qed

lemma pageButtons_high:
  assumes "5 < tp" "3 < cur" "tp - 2 \<le> cur"
  shows "map (pageNum tp cur) [0 .. min 5 tp - 1] = [tp - 4 .. tp]"
proof -
  have m: "min 5 tp - 1 = 4" using assms by simp
  have "map (pageNum tp cur) [0 .. 4] = map (\<lambda>i. (tp - 4) + i) [0 .. 4]"
    using assms by (intro map_cong) (auto simp: pageNum_def)
  also have "\<dots> = [tp - 4 .. tp - 4 + 4]" by (rule map_shift_upto)
  also have "tp - 4 + 4 = tp" by simp
  finally show ?thesis unfolding m .
qed

lemma pageButtons_mid:
  assumes "5 < tp" "3 < cur" "cur < tp - 2"
  shows "map (pageNum tp cur) [0 .. min 5 tp - 1] = [cur - 2 .. cur + 2]"
proof -
  have m: "min 5 tp - 1 = 4" using assms by simp
  have "map (pageNum tp cur) [0 .. 4] = map (\<lambda>i. (cur - 2) + i) [0 .. 4]"
    using assms by (intro map_cong) (auto simp: pageNum_def)
  also have "\<dots> = [cur - 2 .. cur - 2 + 4]" by (rule map_shift_upto)
  also have "cur - 2 + 4 = cur + 2" by simp
  finally show ?thesis unfolding m .
qed

text \<open>
  Claim C9, as the code has it. For a page size \<open>limit \<ge> 1\<close>: the number of pages is
  \<open>max 1 (ceil(total/limit))\<close>, so 1 when \<open>total = 0\<close>; the control renders
  \<open>min 5 totalPages\<close> page buttons, at most 5; the buttons are numbered
  \<open>current-2 .. current+2\<close> when that whole range lies within \<open>1 .. totalPages\<close>,
  otherwise \<open>1 .. min 5 totalPages\<close> when \<open>current \<le> 3\<close> and
  \<open>max 1 (totalPages-4) .. totalPages\<close> when \<open>current > 3\<close>; the current page is
  among the buttons whenever \<open>1 \<le> current \<le> totalPages\<close>.
\<close>

theorem C9_paging_controls:
  assumes "1 \<le> p_limit pg"
  shows "let v = renderPagination pg; tp = totalPages v; cur = p_page pg
         in tp = max 1 (js_ceil_div (p_total pg) (p_limit pg))
          \<and> 1 \<le> tp
          \<and> (p_total pg = 0 \<longrightarrow> tp = 1)
          \<and> int (length (pageButtons v)) = min 5 tp
          \<and> length (pageButtons v) \<le> 5
          \<and> (1 \<le> cur - 2 \<and> cur + 2 \<le> tp \<longrightarrow> pageButtons v = [cur - 2 .. cur + 2])
          \<and> (\<not> (1 \<le> cur - 2 \<and> cur + 2 \<le> tp) \<and> cur \<le> 3 \<longrightarrow> pageButtons v = [1 .. min 5 tp])
          \<and> (\<not> (1 \<le> cur - 2 \<and> cur + 2 \<le> tp) \<and> 3 < cur \<longrightarrow>
                pageButtons v = [max 1 (tp - 4) .. tp])
          \<and> (1 \<le> cur \<and> cur \<le> tp \<longrightarrow> cur \<in> set (pageButtons v))"
proof -
  define tp where "tp = max 1 (js_ceil_div (p_total pg) (p_limit pg))"
  define cur where "cur = p_page pg"
  have tp1: "1 \<le> tp" unfolding tp_def by simp
  have v: "totalPages (renderPagination pg) = tp"
    "pageButtons (renderPagination pg) = map (pageNum tp cur) [0 .. min 5 tp - 1]"
    unfolding renderPagination_def Let_def tp_def cur_def by simp_all
  have z: "p_total pg = 0 \<longrightarrow> tp = 1"
    unfolding tp_def js_ceil_div_int by simp
  have len: "int (length (map (pageNum tp cur) [0 .. min 5 tp - 1])) = min 5 tp"
    using tp1 by simp
  have fits: "map (pageNum tp cur) [0 .. min 5 tp - 1] = [cur - 2 .. cur + 2]"
    if "1 \<le> cur - 2" "cur + 2 \<le> tp"
  proof (cases "tp \<le> 5 \<or> cur \<le> 3")
    case True
    with that have "cur = 3" "min 5 tp = 5" by auto
    with pageButtons_low [OF True] show ?thesis by simp
  next
    case False
    show ?thesis
    proof (cases "cur < tp - 2")
      case True
      with False pageButtons_mid [of tp cur] show ?thesis by simp
    next
      case F2: False
      with that have "cur = tp - 2" by simp
      with False pageButtons_high [of tp cur] show ?thesis by simp
    qed
  qed
  have low: "map (pageNum tp cur) [0 .. min 5 tp - 1] = [1 .. min 5 tp]" if "cur \<le> 3"
    using that by (simp add: pageButtons_low)
  have high: "map (pageNum tp cur) [0 .. min 5 tp - 1] = [max 1 (tp - 4) .. tp]"
    if "\<not> (1 \<le> cur - 2 \<and> cur + 2 \<le> tp)" "3 < cur"
  proof (cases "tp \<le> 5")
    case True
    then have "min 5 tp = tp" "max 1 (tp - 4) = 1" by auto
    with pageButtons_low [of tp cur] True show ?thesis by simp
  next
    case False
    with that have "max 1 (tp - 4) = tp - 4" "tp - 2 \<le> cur" by auto
    with pageButtons_high [of tp cur] False that show ?thesis by simp
  qed
  have inside: "cur \<in> set (map (pageNum tp cur) [0 .. min 5 tp - 1])" if "1 \<le> cur" "cur \<le> tp"
  proof (cases "1 \<le> cur - 2 \<and> cur + 2 \<le> tp")
    case True
    then show ?thesis using fits by simp
  next
    case False
    show ?thesis
    proof (cases "cur \<le> 3")
      case True
      with that show ?thesis by (simp add: low)
    next
      case F3: False
      with that False show ?thesis by (simp add: high)
    qed
  qed
  show ?thesis
    unfolding Let_def v cur_def [symmetric]
    using tp1 z len fits low high inside
    by (simp add: tp_def [symmetric] del: length_map)
qed


theorem C9_paging_controls_witness:
  "(1::int) \<le> 10
   \<and> totalPages (renderPagination \<lparr>p_page = 4, p_limit = 10, p_total = 95\<rparr>) = 10
   \<and> pageButtons (renderPagination \<lparr>p_page = 4, p_limit = 10, p_total = 95\<rparr>) = [2 .. 6]
   \<and> pageButtons (renderPagination \<lparr>p_page = 2, p_limit = 10, p_total = 95\<rparr>) = [1 .. 5]
   \<and> pageButtons (renderPagination \<lparr>p_page = 9, p_limit = 10, p_total = 95\<rparr>) = [6 .. 10]
   \<and> 4 \<in> set (pageButtons (renderPagination \<lparr>p_page = 4, p_limit = 10, p_total = 95\<rparr>))
   \<and> totalPages (renderPagination \<lparr>p_page = 1, p_limit = 10, p_total = 0\<rparr>) = 1"
proof -
  have c: "js_ceil_div 95 10 = 10" "js_ceil_div 0 10 = 0" by (simp_all add: js_ceil_div_int)
  show ?thesis
    using C9_paging_controls [of "\<lparr>p_page = 4, p_limit = 10, p_total = 95\<rparr>"]
      C9_paging_controls [of "\<lparr>p_page = 2, p_limit = 10, p_total = 95\<rparr>"]
      C9_paging_controls [of "\<lparr>p_page = 9, p_limit = 10, p_total = 95\<rparr>"]
      C9_paging_controls [of "\<lparr>p_page = 1, p_limit = 10, p_total = 0\<rparr>"]
    unfolding Let_def by (simp add: c)
qed

text \<open>
  The page number is kept when another node is opened: after page 3 of a large pool has
  been selected, going back to the list and opening a node with 15 allocations shows
  that node with the pagination state \<open>(page 3, limit 10, total 15)\<close>.
\<close>

lemma page_beyond_last_reachable:
  "allocationPagination
     (totalEffect (openNode (mkNode ''n2'' True (Some example_pool))
        (backToList (handlePageChange 3
           (viewing_state pool \<lparr>p_page = 1, p_limit = 10, p_total = T\<rparr>)))))
   = \<lparr>p_page = 3, p_limit = 10, p_total = 15\<rparr>"
  by (simp add: totalEffect_def openNode_def backToList_def handlePageChange_def
      viewing_state_def initial_state_def mkNode_def setTotal_def example_pool_def)

text \<open>
  Claim C9 as stated fails on the state \<open>(page 3, limit 10, total 15)\<close>, which the page
  reaches as shown above: there are 2 pages, the range
  \<open>1 .. 5\<close> does not fit although \<open>current \<le> 3\<close>, the buttons are \<open>1, 2\<close>, and the
  current page is not among them.
\<close>

theorem C9_counterexample:
  "pageButtons (renderPagination \<lparr>p_page = 3, p_limit = 10, p_total = 15\<rparr>) = [1, 2]
   \<and> totalPages (renderPagination \<lparr>p_page = 3, p_limit = 10, p_total = 15\<rparr>) = 2
   \<and> \<not> (1 \<le> (3::int) - 2 \<and> (3::int) + 2 \<le> 2) \<and> (3::int) \<le> 3
   \<and> pageButtons (renderPagination \<lparr>p_page = 3, p_limit = 10, p_total = 15\<rparr>) \<noteq> [1 .. 5]
   \<and> 3 \<notin> set (pageButtons (renderPagination \<lparr>p_page = 3, p_limit = 10, p_total = 15\<rparr>))"
  by (simp add: renderPagination_def js_ceil_div_int pageNum_def upto_rec1)


section \<open>The node resource aggregator\<close>

lemma foldl_add_sum_list:
  "foldl (\<lambda>sum s. sum + f s) (a::int) xs = a + sum_list (map f xs)"
  by (induction xs arbitrary: a) simp_all

lemma nodeServers_idem: "nodeServers nd (nodeServers nd serversData) = nodeServers nd serversData"
  unfolding nodeServers_def by simp

text \<open>
  Claim C5. The resources attached to a node are computed from the workloads whose
  \<open>node.id\<close> is the id of the node, and from nothing else: \<open>cpuAllocated\<close> is the sum
  of their \<open>cpuPercent\<close>, \<open>memoryAllocated\<close> the sum of their \<open>memoryMiB\<close> times
  \<open>1024*1024\<close>, and \<open>diskAllocated\<close> the sum of their \<open>diskMiB\<close> (0 when absent) times
  \<open>1024*1024\<close>.
\<close>

theorem C5_node_resources:
  "nodeResources nd serversData =
     \<lparr> memoryAllocated = (\<Sum>s \<leftarrow> [s \<leftarrow> serversData. n_id (s_node s) = n_id nd]. s_memoryMiB s * (1024 * 1024)),
       diskAllocated = (\<Sum>s \<leftarrow> [s \<leftarrow> serversData. n_id (s_node s) = n_id nd].
                          (case s_diskMiB s of None \<Rightarrow> 0 | Some d \<Rightarrow> d) * (1024 * 1024)),
       cpuAllocated = (\<Sum>s \<leftarrow> [s \<leftarrow> serversData. n_id (s_node s) = n_id nd]. s_cpuPercent s) \<rparr>
   \<and> nodeResources nd serversData = nodeResources nd [s \<leftarrow> serversData. n_id (s_node s) = n_id nd]
   \<and> map n_resources (nodesWithResources nodesData serversData)
        = map (\<lambda>nd. Some (nodeResources nd serversData)) nodesData"
proof -
  have d: "num_or_0 x = (case x of None \<Rightarrow> 0 | Some d \<Rightarrow> d)" for x
    by (simp add: num_or_0_def split: option.splits)
  have 1: "nodeResources nd serversData =
     \<lparr> memoryAllocated = (\<Sum>s \<leftarrow> [s \<leftarrow> serversData. n_id (s_node s) = n_id nd]. s_memoryMiB s * (1024 * 1024)),
       diskAllocated = (\<Sum>s \<leftarrow> [s \<leftarrow> serversData. n_id (s_node s) = n_id nd].
                          (case s_diskMiB s of None \<Rightarrow> 0 | Some d \<Rightarrow> d) * (1024 * 1024)),
       cpuAllocated = (\<Sum>s \<leftarrow> [s \<leftarrow> serversData. n_id (s_node s) = n_id nd]. s_cpuPercent s) \<rparr>"
    unfolding nodeResources_def Let_def nodeServers_def foldl_add_sum_list d
    by (simp add: mult.commute)
  have 2: "nodeResources nd serversData = nodeResources nd [s \<leftarrow> serversData. n_id (s_node s) = n_id nd]"
    using nodeServers_idem [of nd serversData]
    unfolding nodeResources_def Let_def by (simp add: nodeServers_def)
  have 3: "map n_resources (nodesWithResources nodesData serversData)
        = map (\<lambda>nd. Some (nodeResources nd serversData)) nodesData"
    unfolding nodesWithResources_def by simp
  from 1 2 3 show ?thesis by blast
qed

section \<open>Deleting a node\<close>

text \<open>
  Claim C6. When the response to the deletion of a node is not \<open>ok\<close> and its body carries
  a count greater than 0, the page shows a warning (not an error) whose message includes
  the count. When the body carries no such count, or cannot be read, the page shows an
  error with the message of the body, of the parse error, or ``Failed to delete node''. In
  each of these cases the page sends no further request (no refresh), and the node list,
  the selected node and the view stay as they were.
\<close>

theorem C6_delete_node_blocked:
  "(\<forall>d cnt. deleteNodeResp ev (requests s) nodeId = HttpErr (Json d)
              \<and> e_count d = Some cnt \<and> 0 < cnt \<longrightarrow>
       handleDelete ev c nodeId s =
         s\<lparr> requests := requests s @ [DeleteNode nodeId],
            alerts := alerts s @
              [\<lparr> al_id = show_nat (now ev (requests s @ [DeleteNode nodeId])),
                 al_type = AWarning,
                 al_message = ''Cannot delete node with '' @ show_int cnt @ '' active servers'' \<rparr>] \<rparr>)
   \<and> (\<forall>d. deleteNodeResp ev (requests s) nodeId = HttpErr (Json d)
          \<and> (e_count d = None \<or> (\<exists>cnt. e_count d = Some cnt \<and> cnt \<le> 0)) \<longrightarrow>
       handleDelete ev c nodeId s =
         s\<lparr> requests := requests s @ [DeleteNode nodeId],
            alerts := alerts s @
              [\<lparr> al_id = show_nat (now ev (requests s @ [DeleteNode nodeId])),
                 al_type = AError,
                 al_message = str_or (e_error d) ''Failed to delete node'' \<rparr>] \<rparr>)
   \<and> (\<forall>m. deleteNodeResp ev (requests s) nodeId = HttpErr (Unreadable m) \<longrightarrow>
       handleDelete ev c nodeId s =
         s\<lparr> requests := requests s @ [DeleteNode nodeId],
            alerts := alerts s @
              [\<lparr> al_id = show_nat (now ev (requests s @ [DeleteNode nodeId])),
                 al_type = AError, al_message = m \<rparr>] \<rparr>)
   \<and> (\<forall>b. deleteNodeResp ev (requests s) nodeId = HttpErr b \<longrightarrow>
       requests (handleDelete ev c nodeId s) = requests s @ [DeleteNode nodeId]
       \<and> nodes (handleDelete ev c nodeId s) = nodes s
       \<and> selectedNode (handleDelete ev c nodeId s) = selectedNode s
       \<and> view (handleDelete ev c nodeId s) = view s
       \<and> length (alerts (handleDelete ev c nodeId s)) = length (alerts s) + 1)"
  by (auto simp: handleDelete_def showAlert_def Let_def split: option.splits body.splits)

theorem C6_delete_node_blocked_witness:
  "handleDelete
     (offline_env\<lparr> deleteNodeResp :=
        (\<lambda>hist nodeId. HttpErr (Json \<lparr> e_error = Some ''Node has active servers'', e_count = Some 3 \<rparr>)) \<rparr>)
     initial_state ''n1'' initial_state
   = initial_state\<lparr> requests := [DeleteNode ''n1''],
       alerts := [\<lparr> al_id = ''1001'', al_type = AWarning,
                    al_message = ''Cannot delete node with 3 active servers'' \<rparr>] \<rparr>
   \<and> handleDelete
     (offline_env\<lparr> deleteNodeResp :=
        (\<lambda>hist nodeId. HttpErr (Json \<lparr> e_error = Some ''Node not found'', e_count = None \<rparr>)) \<rparr>)
     initial_state ''n1'' initial_state
   = initial_state\<lparr> requests := [DeleteNode ''n1''],
       alerts := [\<lparr> al_id = ''1001'', al_type = AError, al_message = ''Node not found'' \<rparr>] \<rparr>
   \<and> handleDelete
     (offline_env\<lparr> deleteNodeResp := (\<lambda>hist nodeId. HttpErr (Unreadable ''Unexpected token'')) \<rparr>)
     initial_state ''n1'' initial_state
   = initial_state\<lparr> requests := [DeleteNode ''n1''],
       alerts := [\<lparr> al_id = ''1001'', al_type = AError, al_message = ''Unexpected token'' \<rparr>] \<rparr>"
proof -
  let ?e1 = "offline_env\<lparr> deleteNodeResp :=
        (\<lambda>hist nodeId. HttpErr (Json \<lparr> e_error = Some ''Node has active servers'', e_count = Some 3 \<rparr>)) \<rparr>"
  let ?e2 = "offline_env\<lparr> deleteNodeResp :=
        (\<lambda>hist nodeId. HttpErr (Json \<lparr> e_error = Some ''Node not found'', e_count = None \<rparr>)) \<rparr>"
  let ?e3 = "offline_env\<lparr> deleteNodeResp := (\<lambda>hist nodeId. HttpErr (Unreadable ''Unexpected token'')) \<rparr>"
  have n: "show_nat 1001 = ''1001''" "show_int 3 = ''3''"
    by (simp_all add: show_int_def show_nat.simps)
  show ?thesis
    using C6_delete_node_blocked [of ?e1 initial_state "''n1''" initial_state]
      C6_delete_node_blocked [of ?e2 initial_state "''n1''" initial_state]
      C6_delete_node_blocked [of ?e3 initial_state "''n1''" initial_state]
    by (simp add: n offline_env_def initial_state_def str_or_def)
qed

section \<open>Strings of the search widget\<close>

lemma startsWith_iff: "startsWith s q \<longleftrightarrow> (\<exists>post. s = q @ post)"
  by (induction s q rule: startsWith.induct) auto

lemma js_includes_iff: "js_includes s q \<longleftrightarrow> (\<exists>pre post. s = pre @ q @ post)"
proof (induction s)
  case Nil
  show ?case by auto
next
  case (Cons ch s)
  show ?case
  proof
    assume "js_includes (ch # s) q"
    then consider "startsWith (ch # s) q" | "js_includes s q" by auto
    then show "\<exists>pre post. ch # s = pre @ q @ post"
    proof cases
      case 1
      then obtain post where "ch # s = q @ post" unfolding startsWith_iff by blast
      then have "ch # s = [] @ q @ post" by simp
      then show ?thesis by blast
    next
      case 2
      then obtain pre post where "s = pre @ q @ post" using Cons.IH by blast
      then have "ch # s = (ch # pre) @ q @ post" by simp
      then show ?thesis by blast
    qed
  next
    assume "\<exists>pre post. ch # s = pre @ q @ post"
    then obtain pre post where e: "ch # s = pre @ q @ post" by blast
    show "js_includes (ch # s) q"
    proof (cases pre)
      case Nil
      with e have "startsWith (ch # s) q" unfolding startsWith_iff by auto
      then show ?thesis by simp
    next
      case (Cons p pre')
      with e have "s = pre' @ q @ post" by simp
      then have "js_includes s q" using Cons.IH by blast
      then show ?thesis by simp
    qed
  qed
qed

section \<open>Status probes during a refresh\<close>

lemma nodesWithState_requests:
  "snd (nodesWithState ev nds hist) = hist @ map (\<lambda>nd. GetState (n_fqdn nd) (n_port nd)) (filter n_isOnline nds)"
  by (induction nds arbitrary: hist) (simp_all add: Let_def case_prod_beta)

lemma nodesWithState_length:
  "length (fst (nodesWithState ev nds hist)) = length nds"
  by (induction nds arbitrary: hist) (simp_all add: Let_def case_prod_beta)

lemma nodesWithState_nth:
  assumes "i < length nds"
  shows "fst (nodesWithState ev nds hist) ! i =
     (if n_isOnline (nds ! i)
      then (nds ! i)\<lparr> n_systemState :=
             fetchNodeState ev
               (hist @ map (\<lambda>nd. GetState (n_fqdn nd) (n_port nd)) (filter n_isOnline (take i nds)))
               (nds ! i) \<rparr>
      else nds ! i)"
  using assms
proof (induction nds arbitrary: hist i)
  case Nil
  then show ?case by simp
next
  case (Cons nd nds)
  show ?case
  proof (cases i)
    case 0
    then show ?thesis by (simp add: Let_def case_prod_beta)
  next
    case (Suc j)
    with Cons.prems have j: "j < length nds" by simp
    show ?thesis
      using Cons.IH [OF j] Suc by (simp add: Let_def case_prod_beta)
  qed
qed

lemma fetchNodeState_cases:
  "fetchNodeState ev hist nd =
     (case stateResp ev hist nd of HttpOk (Json st) \<Rightarrow> Val st | _ \<Rightarrow> Null)"
  by (simp add: fetchNodeState_def split: response.splits body.splits)


lemma fetchData_ok:
  assumes "nodesResp ev (requests s) = HttpOk (Json nodesData)"
      and "serversResp ev (requests s @ [GetNodes]) = HttpOk (Json serversData)"
  shows "nodes (fetchData ev c s)
           = fst (nodesWithState ev (nodesWithResources nodesData serversData)
                    (requests s @ [GetNodes, GetServers]))"
    and "requests (fetchData ev c s)
           = snd (nodesWithState ev (nodesWithResources nodesData serversData)
                    (requests s @ [GetNodes, GetServers]))"
    and "error (fetchData ev c s) = None"
    and "alerts (fetchData ev c s) = alerts s"
    and "loading (fetchData ev c s) = False"
    and "servers (fetchData ev c s) = serversData"
  by (simp_all add: fetchData_def assms Let_def case_prod_beta setTotal_def split: option.splits)

lemma nodesWithResources_online:
  "filter n_isOnline (nodesWithResources nodesData serversData)
     = nodesWithResources (filter n_isOnline nodesData) serversData"
  unfolding nodesWithResources_def by (induction nodesData) simp_all

text \<open>
  Claim C8. In a refresh whose two list requests succeed, a status probe is sent for each
  node reported online and for no other node, in list order. An online node whose probe
  fails (the request is rejected, the response is not \<open>ok\<close>, or its body is unreadable)
  gets the system state \<open>null\<close>; an online node whose probe succeeds gets the state the
  probe returned, whatever happened to the other probes; an offline node is left as it is.
  The refresh always completes: no error is set, no alert is shown, the node list holds
  every node.
\<close>

theorem C8_status_probes:
  assumes "nodesResp ev (requests s) = HttpOk (Json nodesData)"
      and "serversResp ev (requests s @ [GetNodes]) = HttpOk (Json serversData)"
  shows "let nws = nodesWithResources nodesData serversData;
             hist0 = requests s @ [GetNodes, GetServers];
             probe = (\<lambda>nd. GetState (n_fqdn nd) (n_port nd));
             s' = fetchData ev c s
         in requests s' = hist0 @ map probe (filter n_isOnline nws)
          \<and> length (nodes s') = length nodesData
          \<and> (\<forall>i < length nws.
                (let answer = stateResp ev (hist0 @ map probe (filter n_isOnline (take i nws))) (nws ! i)
                 in nodes s' ! i =
                      (if n_isOnline (nws ! i)
                       then (nws ! i)\<lparr> n_systemState :=
                              (case answer of HttpOk (Json st) \<Rightarrow> Val st | _ \<Rightarrow> Null) \<rparr>
                       else nws ! i)
                  \<and> (n_isOnline (nws ! i) \<and> (\<forall>st. answer \<noteq> HttpOk (Json st))
                       \<longrightarrow> n_systemState (nodes s' ! i) = Null)))
          \<and> error s' = None \<and> alerts s' = alerts s \<and> loading s' = False
          \<and> servers s' = serversData"
proof -
  let ?nws = "nodesWithResources nodesData serversData"
  let ?h = "requests s @ [GetNodes, GetServers]"
  note ok = fetchData_ok [OF assms, of c]
  have len: "length ?nws = length nodesData" by (simp add: nodesWithResources_def)
  have nth: "nodes (fetchData ev c s) ! i =
      (if n_isOnline (?nws ! i)
       then (?nws ! i)\<lparr> n_systemState :=
              (case stateResp ev (?h @ map (\<lambda>nd. GetState (n_fqdn nd) (n_port nd))
                                       (filter n_isOnline (take i ?nws))) (?nws ! i)
               of HttpOk (Json st) \<Rightarrow> Val st | _ \<Rightarrow> Null) \<rparr>
       else ?nws ! i)" if "i < length ?nws" for i
    unfolding ok(1) nodesWithState_nth [OF that] fetchNodeState_cases ..
  have null: "n_systemState (nodes (fetchData ev c s) ! i) = Null"
    if "i < length ?nws" "n_isOnline (?nws ! i)"
       "\<forall>st. stateResp ev (?h @ map (\<lambda>nd. GetState (n_fqdn nd) (n_port nd))
                                       (filter n_isOnline (take i ?nws))) (?nws ! i) \<noteq> HttpOk (Json st)" for i
    unfolding nth [OF that(1)] using that(2,3)
    by (simp split: response.splits body.splits)
  show ?thesis
    unfolding Let_def
    using nth null ok(3-6)
    by (simp add: ok(2) nodesWithState_requests ok(1) nodesWithState_length len)
qed


theorem C8_status_probes_witness:
  "nodesResp probing_env (requests initial_state)
     = HttpOk (Json [mkNode ''n1'' True None, mkNode ''n2'' False None, mkNode ''n3'' True None])
   \<and> serversResp probing_env (requests initial_state @ [GetNodes]) = HttpOk (Json [])
   \<and> requests (fetchData probing_env initial_state initial_state)
        = [GetNodes, GetServers, GetState ''n1.example.com'' 8080, GetState ''n3.example.com'' 8080]
   \<and> map n_systemState (nodes (fetchData probing_env initial_state initial_state))
        = [Null, Undefined, Val example_system_state]
   \<and> map n_id (nodes (fetchData probing_env initial_state initial_state)) = [''n1'', ''n2'', ''n3'']
   \<and> error (fetchData probing_env initial_state initial_state) = None
   \<and> alerts (fetchData probing_env initial_state initial_state) = []"
proof -
  have r1: "nodesResp probing_env (requests initial_state)
     = HttpOk (Json [mkNode ''n1'' True None, mkNode ''n2'' False None, mkNode ''n3'' True None])"
    by (simp add: probing_env_def)
  have r2: "serversResp probing_env (requests initial_state @ [GetNodes]) = HttpOk (Json [])"
    by (simp add: probing_env_def)
  have n: "nodes (fetchData probing_env initial_state initial_state)
     = [ (mkNode ''n1'' True None)
           \<lparr> n_resources := Some \<lparr> memoryAllocated = 0, diskAllocated = 0, cpuAllocated = 0 \<rparr>,
             n_systemState := Null \<rparr>,
         (mkNode ''n2'' False None)
           \<lparr> n_resources := Some \<lparr> memoryAllocated = 0, diskAllocated = 0, cpuAllocated = 0 \<rparr> \<rparr>,
         (mkNode ''n3'' True None)
           \<lparr> n_resources := Some \<lparr> memoryAllocated = 0, diskAllocated = 0, cpuAllocated = 0 \<rparr>,
             n_systemState := Val example_system_state \<rparr> ]"
    by (simp add: fetchData_def probing_env_def offline_env_def initial_state_def Let_def
        nodesWithResources_def nodeResources_def nodeServers_def mkNode_def fetchNodeState_def)
  from C8_status_probes [OF r1 r2, of initial_state]
  show ?thesis
    unfolding Let_def n using r1 r2
    by (simp add: initial_state_def nodesWithResources_def mkNode_def)
qed

section \<open>Pagination after a change of allocations\<close>

lemma showAlert_fields:
  "requests (showAlert ev ty msg s) = requests s"
  "allocationPagination (showAlert ev ty msg s) = allocationPagination s"
  "selectedNode (showAlert ev ty msg s) = selectedNode s"
  "selectedAllocations (showAlert ev ty msg s) = selectedAllocations s"
  "nodes (showAlert ev ty msg s) = nodes s"
  by (simp_all add: showAlert_def)

lemma fetchSingleNode_requests:
  "requests (snd (fetchSingleNode ev c nodeId s)) = requests s @ [GetNode nodeId]"
  by (simp add: fetchSingleNode_def Let_def showAlert_def setTotal_def
      split: response.splits body.splits option.splits)

lemma fetchSingleNode_ok:
  assumes "nodeResp ev (requests s) nodeId = HttpOk (Json nodeData)"
  shows "fst (fetchSingleNode ev c nodeId s) = Some nodeData"
    and "p_page (allocationPagination (snd (fetchSingleNode ev c nodeId s))) = p_page (allocationPagination s)"
    and "p_limit (allocationPagination (snd (fetchSingleNode ev c nodeId s))) = p_limit (allocationPagination s)"
    and "n_allocations nodeData = None \<Longrightarrow>
           allocationPagination (snd (fetchSingleNode ev c nodeId s)) = allocationPagination s"
  using assms
  by (simp_all add: fetchSingleNode_def Let_def setTotal_def split: option.splits)

lemma handleDeleteAllocation_ok:
  assumes "selectedNode c = Some sel"
      and "deleteAllocationResp ev (requests s) (n_id sel) allocationId = HttpOk b"
      and "nodeResp ev (requests s @ [DeleteAllocation (n_id sel) allocationId]) (n_id sel)
             = HttpOk (Json updatedNode)"
      and "n_allocations updatedNode = Some allocs"
  shows "allocationPagination (handleDeleteAllocation ev c allocationId s) =
           (let tp = js_ceil_div (int (length allocs)) (p_limit (allocationPagination c))
            in \<lparr> p_page = (if p_page (allocationPagination c) > tp \<and> tp > 0 then tp
                           else p_page (allocationPagination s)),
                 p_limit = p_limit (allocationPagination s),
                 p_total = int (length allocs) \<rparr>)"
    and "selectedNode (handleDeleteAllocation ev c allocationId s) = Some updatedNode"
  using assms
  by (simp_all add: handleDeleteAllocation_def fetchSingleNode_def Let_def setTotal_def showAlert_def
      split: option.splits)


lemma handleCreateAllocation_ok:
  assumes "selectedNode c = Some sel"
      and "postAllocationResp ev (requests s) (n_id sel) (allocationFormData c) = HttpOk b"
      and "nodeResp ev (requests s @ [PostAllocation (n_id sel) (allocationFormData c)]) (n_id sel)
             = HttpOk (Json updatedNode)"
  shows "selectedNode (handleCreateAllocation ev c s) = Some updatedNode"
    and "n_allocations updatedNode = Some allocs \<Longrightarrow>
           allocationPagination (handleCreateAllocation ev c s)
             = (allocationPagination s)\<lparr> p_total := int (length allocs) \<rparr>"
    and "n_allocations updatedNode = None \<Longrightarrow>
           allocationPagination (handleCreateAllocation ev c s) = allocationPagination s"
  using assms
  by (simp_all add: handleCreateAllocation_def fetchSingleNode_def Let_def setTotal_def showAlert_def
      split: option.splits)





lemma handleDeleteAllocation_no_list:
  assumes "selectedNode c = Some sel"
      and "deleteAllocationResp ev (requests s) (n_id sel) allocationId = HttpOk b"
      and "nodeResp ev (requests s @ [DeleteAllocation (n_id sel) allocationId]) (n_id sel)
             = HttpOk (Json updatedNode)"
      and "n_allocations updatedNode = None"
  shows "allocationPagination (handleDeleteAllocation ev c allocationId s) = allocationPagination s"
    and "selectedNode (handleDeleteAllocation ev c allocationId s) = Some updatedNode"
  using assms
  by (simp_all add: handleDeleteAllocation_def fetchSingleNode_def Let_def setTotal_def showAlert_def
      split: option.splits)

lemma totalEffect_no_list:
  assumes "selectedNode st = Some nd" "n_allocations nd = None"
  shows "totalEffect st = st"
  using assms by (simp add: totalEffect_def)

lemma totalEffect_total:
  assumes "selectedNode st = Some nd" "n_allocations nd = Some allocs"
    "p_total (allocationPagination st) = int (length allocs)"
  shows "p_total (allocationPagination (totalEffect st)) = int (length allocs)"
  using assms by (simp add: totalEffect_def setTotal_def)

text \<open>
  Claim C4, as the code has it. After an allocation is created (a single port or a range,
  whatever the form holds) or deleted, and the refresh of the selected node has succeeded,
  the selected node is the refreshed node. When the refreshed node carries an allocation
  list (possibly empty), the total of the pagination state is the number of its
  allocations, whatever the total was before; when it carries no allocation list, the
  pagination state is left as it was. The effect that follows the change of the selected
  node leaves both outcomes as they are.
\<close>

theorem C4_total_recomputed:
  assumes "selectedNode s = Some sel"
  shows "(postAllocationResp ev (requests s) (n_id sel) (allocationFormData s) = HttpOk b
          \<and> nodeResp ev (requests s @ [PostAllocation (n_id sel) (allocationFormData s)]) (n_id sel)
               = HttpOk (Json updatedNode)
          \<longrightarrow> selectedNode (handleCreateAllocation ev s s) = Some updatedNode
            \<and> (n_allocations updatedNode \<noteq> None \<longrightarrow>
                  p_total (allocationPagination (handleCreateAllocation ev s s))
                    = int (length (allocationsOf updatedNode))
                \<and> p_total (allocationPagination (totalEffect (handleCreateAllocation ev s s)))
                    = int (length (allocationsOf updatedNode)))
            \<and> (n_allocations updatedNode = None \<longrightarrow>
                  allocationPagination (handleCreateAllocation ev s s) = allocationPagination s
                \<and> allocationPagination (totalEffect (handleCreateAllocation ev s s))
                    = allocationPagination s))
       \<and> (deleteAllocationResp ev (requests s) (n_id sel) allocationId = HttpOk b
          \<and> nodeResp ev (requests s @ [DeleteAllocation (n_id sel) allocationId]) (n_id sel)
               = HttpOk (Json updatedNode)
          \<longrightarrow> selectedNode (handleDeleteAllocation ev s allocationId s) = Some updatedNode
            \<and> (n_allocations updatedNode \<noteq> None \<longrightarrow>
                  p_total (allocationPagination (handleDeleteAllocation ev s allocationId s))
                    = int (length (allocationsOf updatedNode))
                \<and> p_total (allocationPagination (totalEffect (handleDeleteAllocation ev s allocationId s)))
                    = int (length (allocationsOf updatedNode)))
            \<and> (n_allocations updatedNode = None \<longrightarrow>
                  allocationPagination (handleDeleteAllocation ev s allocationId s) = allocationPagination s
                \<and> allocationPagination (totalEffect (handleDeleteAllocation ev s allocationId s))
                    = allocationPagination s))"
proof (intro conjI impI)
  assume h: "postAllocationResp ev (requests s) (n_id sel) (allocationFormData s) = HttpOk b
          \<and> nodeResp ev (requests s @ [PostAllocation (n_id sel) (allocationFormData s)]) (n_id sel)
               = HttpOk (Json updatedNode)"
  note ok = handleCreateAllocation_ok [OF assms h [THEN conjunct1] h [THEN conjunct2]]
  show sn: "selectedNode (handleCreateAllocation ev s s) = Some updatedNode" by (rule ok(1))
  {
    assume "n_allocations updatedNode \<noteq> None"
    then obtain allocs where a: "n_allocations updatedNode = Some allocs" by blast
    then have ao: "allocationsOf updatedNode = allocs" by (simp add: allocationsOf_def)
    show t: "p_total (allocationPagination (handleCreateAllocation ev s s))
            = int (length (allocationsOf updatedNode))"
      unfolding ao using ok(2) [OF a] by simp
    show "p_total (allocationPagination (totalEffect (handleCreateAllocation ev s s)))
            = int (length (allocationsOf updatedNode))"
      using totalEffect_total [OF sn a] t unfolding ao by simp
  }
  {
    assume n: "n_allocations updatedNode = None"
    show "allocationPagination (handleCreateAllocation ev s s) = allocationPagination s"
      by (rule ok(3) [OF n])
    show "allocationPagination (totalEffect (handleCreateAllocation ev s s)) = allocationPagination s"
      unfolding totalEffect_no_list [OF sn n] by (rule ok(3) [OF n])
  }
next
  assume h: "deleteAllocationResp ev (requests s) (n_id sel) allocationId = HttpOk b
          \<and> nodeResp ev (requests s @ [DeleteAllocation (n_id sel) allocationId]) (n_id sel)
               = HttpOk (Json updatedNode)"
  show sn: "selectedNode (handleDeleteAllocation ev s allocationId s) = Some updatedNode"
  proof (cases "n_allocations updatedNode")
    case None
    show ?thesis
      by (rule handleDeleteAllocation_no_list(2) [OF assms h [THEN conjunct1] h [THEN conjunct2] None])
  next
    case (Some allocs)
    show ?thesis
      by (rule handleDeleteAllocation_ok(2) [OF assms h [THEN conjunct1] h [THEN conjunct2] Some])
  qed
  {
    assume "n_allocations updatedNode \<noteq> None"
    then obtain allocs where a: "n_allocations updatedNode = Some allocs" by blast
    then have ao: "allocationsOf updatedNode = allocs" by (simp add: allocationsOf_def)
    show t: "p_total (allocationPagination (handleDeleteAllocation ev s allocationId s))
            = int (length (allocationsOf updatedNode))"
      unfolding ao handleDeleteAllocation_ok(1) [OF assms h [THEN conjunct1] h [THEN conjunct2] a]
      by (simp add: Let_def)
    show "p_total (allocationPagination (totalEffect (handleDeleteAllocation ev s allocationId s)))
            = int (length (allocationsOf updatedNode))"
      using totalEffect_total [OF sn a] t unfolding ao by simp
  }
  {
    assume n: "n_allocations updatedNode = None"
    note nl = handleDeleteAllocation_no_list(1) [OF assms h [THEN conjunct1] h [THEN conjunct2] n]
    show "allocationPagination (handleDeleteAllocation ev s allocationId s) = allocationPagination s"
      by (rule nl)
    show "allocationPagination (totalEffect (handleDeleteAllocation ev s allocationId s))
            = allocationPagination s"
      unfolding totalEffect_no_list [OF sn n] by (rule nl)
  }
qed

theorem C4_total_recomputed_witness:
  "(let s = viewing_state (take 11 example_pool) \<lparr>p_page = 1, p_limit = 10, p_total = 11\<rparr>;
        refreshed = mkNode ''n1'' True (Some example_pool);
        ev = serving_env refreshed
    in selectedNode s = Some (mkNode ''n1'' True (Some (take 11 example_pool)))
     \<and> n_allocations refreshed = Some example_pool
     \<and> postAllocationResp ev (requests s) ''n1'' (allocationFormData s) = HttpOk (Json ())
     \<and> nodeResp ev (requests s @ [PostAllocation ''n1'' (allocationFormData s)]) ''n1''
          = HttpOk (Json refreshed)
     \<and> deleteAllocationResp ev (requests s) ''n1'' ''u1'' = HttpOk (Json ())
     \<and> nodeResp ev (requests s @ [DeleteAllocation ''n1'' ''u1'']) ''n1'' = HttpOk (Json refreshed)
     \<and> p_total (allocationPagination (handleCreateAllocation ev s s)) = 15
     \<and> p_total (allocationPagination (handleDeleteAllocation ev s ''u1'' s)) = 15)
   \<and> (let s = viewing_state (take 11 example_pool) \<lparr>p_page = 1, p_limit = 10, p_total = 11\<rparr>;
         refreshed = mkNode ''n1'' True None;
         ev = serving_env refreshed
     in n_allocations refreshed = None
      \<and> postAllocationResp ev (requests s) ''n1'' (allocationFormData s) = HttpOk (Json ())
      \<and> nodeResp ev (requests s @ [PostAllocation ''n1'' (allocationFormData s)]) ''n1''
           = HttpOk (Json refreshed)
      \<and> deleteAllocationResp ev (requests s) ''n1'' ''u1'' = HttpOk (Json ())
      \<and> nodeResp ev (requests s @ [DeleteAllocation ''n1'' ''u1'']) ''n1'' = HttpOk (Json refreshed)
      \<and> allocationPagination (handleCreateAllocation ev s s)
           = \<lparr>p_page = 1, p_limit = 10, p_total = 11\<rparr>
      \<and> allocationPagination (handleDeleteAllocation ev s ''u1'' s)
           = \<lparr>p_page = 1, p_limit = 10, p_total = 11\<rparr>)"
proof -
  let ?s = "viewing_state (take 11 example_pool) \<lparr>p_page = 1, p_limit = 10, p_total = 11\<rparr>"
  let ?r = "mkNode ''n1'' True (Some example_pool)"
  let ?bare = "mkNode ''n1'' True None"
  let ?sel = "mkNode ''n1'' True (Some (take 11 example_pool))"
  have sel: "selectedNode ?s = Some ?sel" by (simp add: viewing_state_def)
  have pg: "allocationPagination ?s = \<lparr>p_page = 1, p_limit = 10, p_total = 11\<rparr>"
    by (simp add: viewing_state_def)
  have al: "n_allocations ?r = Some example_pool" "n_allocations ?r \<noteq> None"
    "n_allocations ?bare = None"
    by (simp_all add: mkNode_def)
  have id: "n_id ?sel = ''n1''" by (simp add: mkNode_def)
  have resp:
    "postAllocationResp (serving_env x) (requests ?s) ''n1'' (allocationFormData ?s) = HttpOk (Json ())"
    "nodeResp (serving_env x) (requests ?s @ [PostAllocation ''n1'' (allocationFormData ?s)]) ''n1''
       = HttpOk (Json x)"
    "deleteAllocationResp (serving_env x) (requests ?s) ''n1'' ''u1'' = HttpOk (Json ())"
    "nodeResp (serving_env x) (requests ?s @ [DeleteAllocation ''n1'' ''u1'']) ''n1'' = HttpOk (Json x)"
    for x
    by (simp_all add: serving_env_def)
  have len: "int (length (allocationsOf ?r)) = 15"
    by (simp add: allocationsOf_def mkNode_def example_pool_def)
  note some = C4_total_recomputed [OF sel, where ev = "serving_env ?r" and b = "Json ()"
      and allocationId = "''u1''" and updatedNode = ?r, unfolded id len pg]
  note none = C4_total_recomputed [OF sel, where ev = "serving_env ?bare" and b = "Json ()"
      and allocationId = "''u1''" and updatedNode = ?bare, unfolded id pg]
  have A: "p_total (allocationPagination (handleCreateAllocation (serving_env ?r) ?s ?s)) = 15"
    "p_total (allocationPagination (handleDeleteAllocation (serving_env ?r) ?s ''u1'' ?s)) = 15"
    using some resp al(2) by simp_all
  have B: "allocationPagination (handleCreateAllocation (serving_env ?bare) ?s ?s)
             = \<lparr>p_page = 1, p_limit = 10, p_total = 11\<rparr>"
    "allocationPagination (handleDeleteAllocation (serving_env ?bare) ?s ''u1'' ?s)
             = \<lparr>p_page = 1, p_limit = 10, p_total = 11\<rparr>"
    using none resp al(3) by simp_all
  show ?thesis
    unfolding Let_def using sel al resp A B by simp
qed

text \<open>
  Claim C4 as stated fails when the refreshed node carries no allocation list (the field is
  optional): the tab then shows no allocation, and the total of the pagination state is the
  one from before the change, also after the effect that follows.
\<close>

theorem C4_counterexample:
  "selectedNode (handleCreateAllocation bare_env page1_state page1_state) = Some (mkNode ''n1'' True None)
   \<and> selectedNode (handleDeleteAllocation bare_env page1_state ''u1'' page1_state)
        = Some (mkNode ''n1'' True None)
   \<and> requests (handleCreateAllocation bare_env page1_state page1_state)
        = [PostAllocation ''n1'' (allocationFormData page1_state), GetNode ''n1'']
   \<and> requests (handleDeleteAllocation bare_env page1_state ''u1'' page1_state)
        = [DeleteAllocation ''n1'' ''u1'', GetNode ''n1'']
   \<and> length (allocationsOf (mkNode ''n1'' True None)) = 0
   \<and> p_total (allocationPagination (handleCreateAllocation bare_env page1_state page1_state)) = 15
   \<and> p_total (allocationPagination (handleDeleteAllocation bare_env page1_state ''u1'' page1_state)) = 15
   \<and> p_total (allocationPagination (totalEffect (handleCreateAllocation bare_env page1_state page1_state))) = 15
   \<and> p_total (allocationPagination
        (totalEffect (handleDeleteAllocation bare_env page1_state ''u1'' page1_state))) = 15"
  by (simp add: Let_def handleCreateAllocation_def handleDeleteAllocation_def fetchSingleNode_def
      page1_state_def bare_env_def viewing_state_def serving_env_def offline_env_def
      initial_state_def mkNode_def setTotal_def showAlert_def allocationsOf_def totalEffect_def)

section \<open>Deleting the selected allocations\<close>

lemma handleDeleteAllocation_requests:
  assumes "selectedNode c = Some sel"
  shows "requests (handleDeleteAllocation ev c allocationId s) =
           requests s @ DeleteAllocation (n_id sel) allocationId #
             (case deleteAllocationResp ev (requests s) (n_id sel) allocationId of
                HttpOk b \<Rightarrow> [GetNode (n_id sel)] | _ \<Rightarrow> [])"
proof (cases "deleteAllocationResp ev (requests s) (n_id sel) allocationId")
  case (NetFail m)
  then show ?thesis using assms by (simp add: handleDeleteAllocation_def showAlert_fields)
next
  case (HttpErr b)
  then show ?thesis using assms by (simp add: handleDeleteAllocation_def showAlert_fields)
next
  case (HttpOk b)
  have "requests (snd (fetchSingleNode ev c (n_id sel)
           (s\<lparr>requests := requests s @ [DeleteAllocation (n_id sel) allocationId]\<rparr>)))
        = requests s @ [DeleteAllocation (n_id sel) allocationId, GetNode (n_id sel)]"
    by (simp add: fetchSingleNode_requests)
  with HttpOk show ?thesis using assms
    by (simp add: handleDeleteAllocation_def Let_def case_prod_beta showAlert_fields setTotal_def
        split: option.splits)
qed

lemma handleDeleteAllocation_deletes:
  assumes "selectedNode c = Some sel"
  shows "filter isDeleteAllocation (requests (handleDeleteAllocation ev c allocationId s)) =
           filter isDeleteAllocation (requests s) @ [DeleteAllocation (n_id sel) allocationId]"
  unfolding handleDeleteAllocation_requests [OF assms]
  by (simp split: response.splits)

lemma sweep_deletes:
  assumes "selectedNode c = Some sel"
  shows "filter isDeleteAllocation
           (requests (foldl (\<lambda>st allocationId. handleDeleteAllocation ev c allocationId st) s ids)) =
         filter isDeleteAllocation (requests s) @ map (DeleteAllocation (n_id sel)) ids"
  by (induction ids arbitrary: s) (simp_all add: handleDeleteAllocation_deletes [OF assms])

lemma sweep_grows:
  assumes "selectedNode c = Some sel"
  shows "\<exists>rs. requests (foldl (\<lambda>st allocationId. handleDeleteAllocation ev c allocationId st) s ids)
           = requests s @ rs"
proof (induction ids arbitrary: s)
  case Nil
  show ?case by simp
next
  case (Cons a ids)
  obtain rs where "requests (foldl (\<lambda>st allocationId. handleDeleteAllocation ev c allocationId st)
                      (handleDeleteAllocation ev c a s) ids)
                   = requests (handleDeleteAllocation ev c a s) @ rs"
    using Cons.IH by blast
  then show ?case
    unfolding handleDeleteAllocation_requests [OF assms] by simp
qed

text \<open>
  Claim C7. The bulk deletion handles the allocations of the selection one after the other,
  in the order of the selection: the sweep over a selection is the complete handling of its
  first allocation (the deletion request and, when it succeeded, the refresh of the node)
  followed by the sweep over the rest, started in the state the first one left. Whatever
  the server answers to each deletion, one deletion request is sent for every allocation of
  the selection, and the selection is empty at the end.
\<close>

theorem C7_bulk_delete_sweep:
  assumes "selectedNode c = Some sel"
  shows "selectedAllocations (handleDeleteSelected ev c s) = []
       \<and> filter isDeleteAllocation (requests (handleDeleteSelected ev c s))
           = filter isDeleteAllocation (requests s)
               @ map (DeleteAllocation (n_id sel)) (selectedAllocations c)
       \<and> (\<forall>allocationId rest. selectedAllocations c = allocationId # rest \<longrightarrow>
             handleDeleteSelected ev c s
               = handleDeleteSelected ev (c\<lparr> selectedAllocations := rest \<rparr>)
                   (handleDeleteAllocation ev c allocationId s)
           \<and> (\<exists>rs. requests (handleDeleteSelected ev c s)
                      = requests s @ DeleteAllocation (n_id sel) allocationId #
                          (case deleteAllocationResp ev (requests s) (n_id sel) allocationId of
                             HttpOk b \<Rightarrow> [GetNode (n_id sel)] | _ \<Rightarrow> []) @ rs))"
proof -
  have hc: "handleDeleteAllocation ev (c\<lparr> selectedAllocations := rest \<rparr>) a st
              = handleDeleteAllocation ev c a st" for rest a st
    by (simp add: handleDeleteAllocation_def fetchSingleNode_def Let_def
        split: option.splits response.splits body.splits)
  have step: "handleDeleteSelected ev c s
               = handleDeleteSelected ev (c\<lparr> selectedAllocations := rest \<rparr>)
                   (handleDeleteAllocation ev c allocationId s)
           \<and> (\<exists>rs. requests (handleDeleteSelected ev c s)
                      = requests s @ DeleteAllocation (n_id sel) allocationId #
                          (case deleteAllocationResp ev (requests s) (n_id sel) allocationId of
                             HttpOk b \<Rightarrow> [GetNode (n_id sel)] | _ \<Rightarrow> []) @ rs)"
    if "selectedAllocations c = allocationId # rest" for allocationId rest
  proof -
    obtain rs where rs: "requests (foldl (\<lambda>st a. handleDeleteAllocation ev c a st)
                      (handleDeleteAllocation ev c allocationId s) rest)
                   = requests (handleDeleteAllocation ev c allocationId s) @ rs"
      using sweep_grows [OF assms] by blast
    show ?thesis
      unfolding handleDeleteSelected_def that hc
      using rs unfolding handleDeleteAllocation_requests [OF assms]
      by simp
  qed
  have cleared: "selectedAllocations (handleDeleteSelected ev c s) = []"
    by (simp add: handleDeleteSelected_def)
  have all: "filter isDeleteAllocation (requests (handleDeleteSelected ev c s))
           = filter isDeleteAllocation (requests s)
               @ map (DeleteAllocation (n_id sel)) (selectedAllocations c)"
    by (simp add: handleDeleteSelected_def sweep_deletes [OF assms])
  from cleared all step show ?thesis by blast
qed

theorem C7_bulk_delete_sweep_witness:
  "(let c = (viewing_state (take 3 example_pool) \<lparr>p_page = 1, p_limit = 10, p_total = 3\<rparr>)
              \<lparr> selectedAllocations := [''u1'', ''u2''] \<rparr>;
        ev = flaky_env (mkNode ''n1'' True (Some (take 2 example_pool)));
        s' = handleDeleteSelected ev c c
    in selectedNode c = Some (mkNode ''n1'' True (Some (take 3 example_pool)))
     \<and> selectedAllocations c = [''u1'', ''u2'']
     \<and> requests s' = [DeleteAllocation ''n1'' ''u1'', DeleteAllocation ''n1'' ''u2'', GetNode ''n1'']
     \<and> filter isDeleteAllocation (requests s')
          = map (DeleteAllocation ''n1'') [''u1'', ''u2'']
     \<and> map al_type (alerts s') = [AError, ASuccess]
     \<and> map al_message (alerts s') = [''Allocation is in use'', ''Allocation deleted successfully'']
     \<and> selectedAllocations s' = [])"
proof -
  let ?c = "(viewing_state (take 3 example_pool) \<lparr>p_page = 1, p_limit = 10, p_total = 3\<rparr>)
              \<lparr> selectedAllocations := [''u1'', ''u2''] \<rparr>"
  let ?ev = "flaky_env (mkNode ''n1'' True (Some (take 2 example_pool)))"
  have sel: "selectedNode ?c = Some (mkNode ''n1'' True (Some (take 3 example_pool)))"
    by (simp add: viewing_state_def)
  have sa: "selectedAllocations ?c = [''u1'', ''u2'']" by simp
  have rq: "requests ?c = []" by (simp add: viewing_state_def initial_state_def)
  have id: "n_id (mkNode ''n1'' True x) = ''n1''" for x by (simp add: mkNode_def)
  have run: "requests (handleDeleteSelected ?ev ?c ?c)
               = [DeleteAllocation ''n1'' ''u1'', DeleteAllocation ''n1'' ''u2'', GetNode ''n1'']
     \<and> map al_type (alerts (handleDeleteSelected ?ev ?c ?c)) = [AError, ASuccess]
     \<and> map al_message (alerts (handleDeleteSelected ?ev ?c ?c))
          = [''Allocation is in use'', ''Allocation deleted successfully'']"
    by (simp add: handleDeleteSelected_def handleDeleteAllocation_def fetchSingleNode_def
        flaky_env_def serving_env_def offline_env_def viewing_state_def initial_state_def
        Let_def showAlert_def setTotal_def thrown_def str_or_def mkNode_def)
  note sweep = C7_bulk_delete_sweep [OF sel, of ?ev ?c]
  have cleared: "selectedAllocations (handleDeleteSelected ?ev ?c ?c) = []"
    by (rule sweep [THEN conjunct1])
  have dels: "filter isDeleteAllocation (requests (handleDeleteSelected ?ev ?c ?c))
                = map (DeleteAllocation ''n1'') [''u1'', ''u2'']"
    using sweep [THEN conjunct2, THEN conjunct1] unfolding sa rq id by simp
  show ?thesis
    unfolding Let_def using sel sa run cleared dels by simp
qed

section \<open>The filter of the search widget\<close>

lemma filterEffect_blank:
  assumes "js_trim q = []"
  shows "setQuery q st = st\<lparr> sb_query := q, sb_filteredServers := sb_servers st \<rparr>"
  using assms by (simp add: setQuery_def filterEffect_def)

lemma filterEffect_query:
  assumes "js_trim q \<noteq> []"
  shows "sb_filteredServers (setQuery q st) =
           [server \<leftarrow> sb_servers st.
              (\<exists>pre post. toLowerCase (sv_name server) = pre @ toLowerCase q @ post)
              \<or> (\<exists>nd pre post. sv_node server = Some nd
                    \<and> toLowerCase (sn_fqdn nd) = pre @ toLowerCase q @ post)]"
    and "sb_selectedIndex (setQuery q st) = 0"
proof -
  show "sb_selectedIndex (setQuery q st) = 0"
    using assms by (simp add: setQuery_def filterEffect_def Let_def)
  have "sb_filteredServers (setQuery q st) =
          filter (\<lambda>server. js_includes (toLowerCase (sv_name server)) (toLowerCase q)
                    \<or> (case sv_node server of None \<Rightarrow> False
                        | Some nd \<Rightarrow> js_includes (toLowerCase (sn_fqdn nd)) (toLowerCase q)))
            (sb_servers st)"
    using assms by (simp add: setQuery_def filterEffect_def Let_def)
  also have "\<dots> = [server \<leftarrow> sb_servers st.
              (\<exists>pre post. toLowerCase (sv_name server) = pre @ toLowerCase q @ post)
              \<or> (\<exists>nd pre post. sv_node server = Some nd
                    \<and> toLowerCase (sn_fqdn nd) = pre @ toLowerCase q @ post)]"
    by (rule filter_cong) (auto simp: js_includes_iff split: option.splits)
  finally show "sb_filteredServers (setQuery q st) =
           [server \<leftarrow> sb_servers st.
              (\<exists>pre post. toLowerCase (sv_name server) = pre @ toLowerCase q @ post)
              \<or> (\<exists>nd pre post. sv_node server = Some nd
                    \<and> toLowerCase (sn_fqdn nd) = pre @ toLowerCase q @ post)]" .
qed

text \<open>
  Claim C10 at a query change that the code does not handle as the claim says. With the
  query ``web'' the list holds the servers \<open>s1\<close> (by name) and \<open>s3\<close> (by the fqdn of
  its node), and the arrow key moves the selection to index 1. Changing the query to the
  empty string, or to blanks, restores the whole list but leaves the selection at index 1;
  changing it to ``db'' resets the selection to 0.
\<close>

theorem C10_blank_query_keeps_index:
  "map sv_id (sb_filteredServers searched_state) = [''s1'', ''s3'']
   \<and> sb_selectedIndex searched_state = 1
   \<and> js_trim [] = [] \<and> js_trim ''  '' = []
   \<and> sb_filteredServers (setQuery [] searched_state) = example_servers
   \<and> sb_selectedIndex (setQuery [] searched_state) = 1
   \<and> sb_filteredServers (setQuery ''  '' searched_state) = example_servers
   \<and> sb_selectedIndex (setQuery ''  '' searched_state) = 1
   \<and> sb_selectedIndex (setQuery ''db'' searched_state) = 0"
  by (simp add: Let_def searched_state_def setQuery_def filterEffect_def arrowDown_def
      search_initial_def example_servers_def js_trim_def is_space_def toLowerCase_def lower_char_def)

end
